theory Spec2Isabelle
  imports Complex_Main "HOL-Library.Word" "HOL-Library.Sublist"
begin

section \<open>Values of the page\<close>

text \<open>
  The page \<^verbatim>\<open>src/unnamed/part_000\<close> is a React component \<^verbatim>\<open>HomePage\<close> with five
  state cells and three handlers (\<^verbatim>\<open>handleArchiveSelect\<close>, \<^verbatim>\<open>resetForm\<close>,
  \<^verbatim>\<open>onSubmit\<close>). The handlers are modelled as functions on a record of the five cells.

  The text of the form fields is what the code looks into (white space, letter case), so
  a form field is a \<open>jsstring\<close>: the list of its UTF-16 code units, each a 16-bit word.
  File names, messages, property names and addresses are only compared with or copied
  from literals of the source; they are lists of \<^typ>\<open>char\<close>. \<open>str\<close> turns a literal of
  the source into the form-field type.
\<close>

datatype BuildStatus = idle | working | success | error

text \<open>
  What \<^verbatim>\<open>response.json()\<close> can resolve to. The result is typed \<^verbatim>\<open>any\<close>, and
  \<^verbatim>\<open>message\<close> and \<^verbatim>\<open>details\<close> are stored unchecked in the state, so the cells
  \<^verbatim>\<open>statusMessage\<close> and \<^verbatim>\<open>logs\<close> hold such values at run time. An object is the
  list of its own properties in insertion order (keys distinct); the handlers never
  compute with a number.
\<close>

datatype jsval =
    JNull
  | JBool bool
  | JNum real
  | JStr string
  | JArr "jsval list"
  | JObj "(string \<times> jsval) list"

type_synonym blob = "8 word list"

type_synonym jsstring = "16 word list"

definition str :: "string \<Rightarrow> jsstring" where
  "str s = map (\<lambda>c. of_nat (of_char c)) s"

record File =
  name :: string
  bytes :: blob

record FormState =
  appName :: jsstring
  version :: jsstring
  entryPoint :: jsstring
  base :: jsstring
  iconPath :: jsstring
  "includes" :: jsstring
  excludes :: jsstring
  includeFiles :: jsstring
  targetName :: jsstring

record PageState =
  formState :: FormState
  status :: BuildStatus
  statusMessage :: jsval
  logs :: "jsval list"
  selectedArchive :: "File option"

definition defaultFormState :: FormState where
  "defaultFormState =
     \<lparr> appName = str ''MyApplication'',
       version = str ''1.0.0'',
       entryPoint = str ''main.py'',
       base = str ''console'',
       iconPath = str '''',
       includes = str '''',
       excludes = str '''',
       includeFiles = str '''',
       targetName = str '''' \<rparr>"

text \<open>The initial values given to the five \<^verbatim>\<open>useState\<close> calls.\<close>

definition HomePage_init :: PageState where
  "HomePage_init =
     \<lparr> formState = defaultFormState,
       status = idle,
       statusMessage = JStr '''',
       logs = [],
       selectedArchive = None \<rparr>"

section \<open>String primitives\<close>

text \<open>\<^verbatim>\<open>s.endsWith(t)\<close>: the last \<open>length t\<close> code units of \<open>s\<close> are \<open>t\<close>.\<close>

definition endsWith :: "string \<Rightarrow> string \<Rightarrow> bool" where
  "endsWith s t \<longleftrightarrow> length t \<le> length s \<and> drop (length s - length t) s = t"

text \<open>
  The class \<^verbatim>\<open>\s\<close> of a regular expression without the flag \<^verbatim>\<open>u\<close>: the white space
  and the line terminators of ECMAScript. These are tab, line feed, vertical tab, form
  feed, carriage return, space, no-break space, U+1680, U+2000 to U+200A, the line and
  paragraph separators U+2028 and U+2029, U+202F, U+205F, U+3000 and U+FEFF.
\<close>

definition is_space :: "16 word \<Rightarrow> bool" where
  "is_space c \<longleftrightarrow>
     c \<in> set [0x0009, 0x000A, 0x000B, 0x000C, 0x000D, 0x0020, 0x00A0, 0x1680,
              0x2000, 0x2001, 0x2002, 0x2003, 0x2004, 0x2005, 0x2006, 0x2007,
              0x2008, 0x2009, 0x200A, 0x2028, 0x2029, 0x202F, 0x205F, 0x3000, 0xFEFF]"

text \<open>
  \<^verbatim>\<open>s.replace(/\s+/g, "-")\<close>: scanning from the left, each maximal run of white space
  is matched once (the \<^verbatim>\<open>+\<close> is greedy) and replaced by one hyphen, U+002D.
\<close>

function replace_ws :: "jsstring \<Rightarrow> jsstring" where
  "replace_ws [] = []"
| "replace_ws (c # cs) =
     (if is_space c then 0x002D # replace_ws (dropWhile is_space cs)
      else c # replace_ws cs)"
  by pat_completeness auto
termination
  by (relation "measure length") (auto simp: length_dropWhile_le less_Suc_eq_le)

text \<open>
  \<^verbatim>\<open>toLowerCase\<close> follows the case mapping of the Unicode standard, a table of the
  JavaScript engine and no part of this program: it is a field of the record
  \<open>Browser\<close> below. On a string whose code units are all below U+0100 that mapping
  works unit by unit, as \<open>lower_unit\<close>: A to Z, and the upper-case letters U+00C0 to
  U+00DE other than the multiplication sign U+00D7, move up by 32. It maps no string
  but the empty one to the empty string. \<open>ecma_lower\<close> holds of a function with these
  two properties.
\<close>

definition lower_unit :: "16 word \<Rightarrow> 16 word" where
  "lower_unit c =
     (if (0x41 \<le> c \<and> c \<le> 0x5A) \<or> (0xC0 \<le> c \<and> c \<le> 0xDE \<and> c \<noteq> 0xD7)
      then c + 0x20 else c)"

definition ecma_lower :: "(jsstring \<Rightarrow> jsstring) \<Rightarrow> bool" where
  "ecma_lower lc \<longleftrightarrow>
     (\<forall>s. lc s = [] \<longrightarrow> s = []) \<and>
     (\<forall>s. (\<forall>c\<in>set s. c < 0x100) \<longrightarrow> lc s = map lower_unit s)"

section \<open>The handlers that do no I/O\<close>

definition handleArchiveSelect :: "File option \<Rightarrow> PageState \<Rightarrow> PageState" where
  "handleArchiveSelect file st =
     (case file of
        None \<Rightarrow> st\<lparr>selectedArchive := None\<rparr>
      | Some f \<Rightarrow>
          if \<not> endsWith (name f) ''.zip''
          then st\<lparr>status := error,
                  statusMessage := JStr ''Only .zip archives are supported.''\<rparr>
          else st\<lparr>status := idle,
                  statusMessage := JStr '''',
                  selectedArchive := Some f\<rparr>)"

definition resetForm :: "PageState \<Rightarrow> PageState" where
  "resetForm st =
     st\<lparr>formState := defaultFormState,
        status := idle,
        statusMessage := JStr '''',
        logs := [],
        selectedArchive := None\<rparr>"

section \<open>Submission\<close>

text \<open>
  A thrown value. The handler asks only \<^verbatim>\<open>error instanceof Error\<close> and, if so, reads
  \<^verbatim>\<open>error.message\<close>.
\<close>

datatype thrown = ErrorInstance string | NotAnError jsval

text \<open>
  The response of the build service as the handler reads it: the flag \<^verbatim>\<open>ok\<close>, and
  what \<^verbatim>\<open>await response.json()\<close> and \<^verbatim>\<open>await response.blob()\<close> give, a rejection
  (\<open>Inl\<close>) or a value (\<open>Inr\<close>).
\<close>

record Response =
  ok :: bool
  json :: "thrown + jsval"
  blob :: "thrown + blob"

datatype part = FilePart File | TextPart jsstring

type_synonym FormData = "(string \<times> part) list"

text \<open>
  What the handler does after \<^verbatim>\<open>URL.createObjectURL(blob)\<close> inside the \<^verbatim>\<open>try\<close>:
  \<^verbatim>\<open>document.createElement("a")\<close>; the assignments to \<^verbatim>\<open>anchor.href\<close>,
  \<^verbatim>\<open>anchor.download\<close> and \<^verbatim>\<open>anchor.style.display\<close>;
  \<^verbatim>\<open>document.body.appendChild(anchor)\<close> and \<^verbatim>\<open>anchor.click()\<close>, each with the
  \<^verbatim>\<open>href\<close> and the \<^verbatim>\<open>download\<close> that the anchor has by then; \<^verbatim>\<open>anchor.remove()\<close>;
  \<^verbatim>\<open>URL.revokeObjectURL(url)\<close>.
\<close>

datatype call =
    CreateElement
  | SetHref string
  | SetDownload jsstring
  | SetDisplay string
  | AppendChild string jsstring
  | Click string jsstring
  | Remove
  | RevokeObjectURL string

text \<open>
  The side effects of the handler, listed in the order it performs them:
  \<^verbatim>\<open>event.preventDefault()\<close>; \<^verbatim>\<open>fetch(url, {method, body})\<close>;
  \<^verbatim>\<open>URL.createObjectURL(blob)\<close>; a call of the list above. A call that throws is not
  listed.
\<close>

datatype effect =
    PreventDefault
  | Fetch string string FormData
  | CreateObjectURL blob
  | Dom call

text \<open>
  What the browser answers during one submission: the outcome of \<^verbatim>\<open>await fetch(...)\<close>;
  the address that \<^verbatim>\<open>URL.createObjectURL\<close> hands out, or what it throws; for each later
  call what it throws, if anything; and the engine's \<^verbatim>\<open>toLowerCase\<close>.
\<close>

record Browser =
  fetch :: "thrown + Response"
  createObjectURL :: "thrown + string"
  throws :: "call \<Rightarrow> thrown option"
  toLowerCase :: "jsstring \<Rightarrow> jsstring"

text \<open>\<^verbatim>\<open>Object.entries(formState)\<close>: the properties in the order of the object literal.\<close>

definition entries :: "FormState \<Rightarrow> (string \<times> jsstring) list" where
  "entries fs =
     [(''appName'', appName fs),
      (''version'', version fs),
      (''entryPoint'', entryPoint fs),
      (''base'', base fs),
      (''iconPath'', iconPath fs),
      (''includes'', includes fs),
      (''excludes'', excludes fs),
      (''includeFiles'', includeFiles fs),
      (''targetName'', targetName fs)]"

text \<open>Truthiness: of a string, and of a value read from JSON.\<close>

definition truthy_str :: "jsstring \<Rightarrow> bool" where
  "truthy_str s \<longleftrightarrow> s \<noteq> []"

fun truthy :: "jsval \<Rightarrow> bool" where
  "truthy JNull = False"
| "truthy (JBool b) = b"
| "truthy (JNum r) = (r \<noteq> 0)"
| "truthy (JStr s) = (s \<noteq> [])"
| "truthy (JArr vs) = True"
| "truthy (JObj kvs) = True"

fun isArray :: "jsval \<Rightarrow> bool" where
  "isArray (JArr vs) = True"
| "isArray v = False"

text \<open>The elements of an array; the handler passes only arrays to \<^verbatim>\<open>setLogs\<close>.\<close>

fun items :: "jsval \<Rightarrow> jsval list" where
  "items (JArr vs) = vs"
| "items v = []"

text \<open>
  The request body: \<^verbatim>\<open>bundle\<close> first, then one part for each entry of the form whose
  value is truthy.
\<close>

definition payload :: "File \<Rightarrow> FormState \<Rightarrow> FormData" where
  "payload archive fs =
     (''bundle'', FilePart archive) #
     map (\<lambda>(key, v). (key, TextPart v)) (filter (\<lambda>(key, v). truthy_str v) (entries fs))"

text \<open>
  \<^verbatim>\<open>const { message, details } = await response.json()\<close>. Destructuring \<^verbatim>\<open>null\<close>
  throws a TypeError; a property that a value does not have reads as \<^verbatim>\<open>undefined\<close>
  (\<open>None\<close>). Only an object has a property \<^verbatim>\<open>message\<close> or \<^verbatim>\<open>details\<close>.
\<close>

fun get_prop :: "jsval \<Rightarrow> string \<Rightarrow> jsval option" where
  "get_prop (JObj kvs) key = map_of kvs key"
| "get_prop v key = None"

definition destructure :: "thrown + jsval \<Rightarrow> thrown + (jsval option \<times> jsval option)" where
  "destructure r =
     (case r of
        Inl e \<Rightarrow> Inl e
      | Inr JNull \<Rightarrow> Inl (ErrorInstance ''TypeError'')
      | Inr v \<Rightarrow> Inr (get_prop v ''message'', get_prop v ''details''))"

text \<open>\<^verbatim>\<open>message ?? "Build failed."\<close>: the right side for \<^verbatim>\<open>undefined\<close> and \<^verbatim>\<open>null\<close>.\<close>

fun nullish_or :: "jsval option \<Rightarrow> jsval \<Rightarrow> jsval" where
  "nullish_or None d = d"
| "nullish_or (Some JNull) d = d"
| "nullish_or (Some v) d = v"

text \<open>
  \<^verbatim>\<open>formState.targetName || formState.appName.replace(/\s+/g, "-").toLowerCase() || "build"\<close>
\<close>

definition buildName :: "Browser \<Rightarrow> FormState \<Rightarrow> jsstring" where
  "buildName br fs =
     (if truthy_str (targetName fs) then targetName fs
      else let n = toLowerCase br (replace_ws (appName fs))
           in if truthy_str n then n else str ''build'')"

text \<open>
  The calls after \<^verbatim>\<open>URL.createObjectURL\<close>, for the address \<open>url\<close> and the download
  name \<open>file\<close>, in the order of the source.
\<close>

definition anchor_calls :: "string \<Rightarrow> jsstring \<Rightarrow> call list" where
  "anchor_calls url file =
     [CreateElement, SetHref url, SetDownload file, SetDisplay ''none'',
      AppendChild url file, Click url file, Remove, RevokeObjectURL url]"

text \<open>
  Calls made one after the other until one throws: the calls that returned, and what
  was thrown, if anything.
\<close>

fun run_calls :: "(call \<Rightarrow> thrown option) \<Rightarrow> call list \<Rightarrow> call list \<times> thrown option" where
  "run_calls thr [] = ([], None)"
| "run_calls thr (c # cs) =
     (case thr c of
        Some err \<Rightarrow> ([], Some err)
      | None \<Rightarrow> (case run_calls thr cs of (returned, r) \<Rightarrow> (c # returned, r)))"

text \<open>The branch \<^verbatim>\<open>if (!response.ok)\<close>, with its own \<^verbatim>\<open>try\<close>.\<close>

definition onSubmit_rejected :: "Response \<Rightarrow> PageState \<Rightarrow> PageState" where
  "onSubmit_rejected response st =
     (let st = st\<lparr>status := error\<rparr> in
      case destructure (json response) of
        Inl err \<Rightarrow> st\<lparr>statusMessage := JStr ''Build failed.''\<rparr>
      | Inr (message, details) \<Rightarrow>
          (let st = st\<lparr>statusMessage := nullish_or message (JStr ''Build failed.'')\<rparr> in
           case details of
             None \<Rightarrow> st
           | Some d \<Rightarrow> if truthy d \<and> isArray d then st\<lparr>logs := items d\<rparr> else st))"

text \<open>The \<^verbatim>\<open>catch (error)\<close> of the outer \<^verbatim>\<open>try\<close>.\<close>

definition onSubmit_catch :: "thrown \<Rightarrow> PageState \<Rightarrow> PageState" where
  "onSubmit_catch err st =
     st\<lparr>status := error,
        statusMessage :=
          (case err of
             ErrorInstance m \<Rightarrow> JStr m
           | NotAnError v \<Rightarrow> JStr ''Unexpected error while building.'')\<rparr>"

text \<open>
  The body of the outer \<^verbatim>\<open>try\<close> from the answer of \<^verbatim>\<open>fetch\<close> on. \<open>fs\<close> is the
  \<^verbatim>\<open>formState\<close> that the handler closed over when it was called. Whatever is thrown
  by \<^verbatim>\<open>fetch\<close>, by \<^verbatim>\<open>response.blob()\<close>, by \<^verbatim>\<open>URL.createObjectURL\<close> or by a later call
  goes to the \<^verbatim>\<open>catch\<close>.
\<close>

definition onSubmit_settle :: "FormState \<Rightarrow> Browser \<Rightarrow> PageState \<Rightarrow> PageState \<times> effect list" where
  "onSubmit_settle fs br st =
     (case fetch br of
        Inl err \<Rightarrow> (onSubmit_catch err st, [])
      | Inr response \<Rightarrow>
          if \<not> ok response then (onSubmit_rejected response st, [])
          else
            (case blob response of
               Inl err \<Rightarrow> (onSubmit_catch err st, [])
             | Inr b \<Rightarrow>
                 (case createObjectURL br of
                    Inl err \<Rightarrow> (onSubmit_catch err st, [])
                  | Inr url \<Rightarrow>
                      (case run_calls (throws br) (anchor_calls url (buildName br fs @ str ''.zip'')) of
                         (returned, Some err) \<Rightarrow>
                           (onSubmit_catch err st, CreateObjectURL b # map Dom returned)
                       | (returned, None) \<Rightarrow>
                           (st\<lparr>status := success,
                               statusMessage :=
                                 JStr ''Build succeeded! Your executable archive has downloaded.''\<rparr>,
                            CreateObjectURL b # map Dom returned)))))"

text \<open>
  The part of \<^verbatim>\<open>onSubmit\<close> that runs before the first \<^verbatim>\<open>await\<close>: the state it leaves
  and, unless the guard returned, the request body.
\<close>

definition onSubmit_begin :: "PageState \<Rightarrow> PageState \<times> FormData option" where
  "onSubmit_begin st =
     (let st1 = st\<lparr>logs := []\<rparr> in
      case selectedArchive st of
        None \<Rightarrow>
          (st1\<lparr>status := error,
               statusMessage := JStr ''Upload a project archive before building.''\<rparr>,
           None)
      | Some archive \<Rightarrow>
          (st1\<lparr>status := working,
               statusMessage := JStr ''Uploading and building executable with cx_Freeze...''\<rparr>,
           Some (payload archive (formState st))))"

text \<open>One whole submission with nothing else happening in between.\<close>

definition onSubmit :: "PageState \<Rightarrow> Browser \<Rightarrow> PageState \<times> effect list" where
  "onSubmit st br =
     (case onSubmit_begin st of
        (st1, None) \<Rightarrow> (st1, [PreventDefault])
      | (st1, Some body) \<Rightarrow>
          (let (st2, effs) = onSubmit_settle (formState st) br st1
           in (st2, PreventDefault # Fetch ''/api/build'' ''POST'' body # effs)))"

definition network_calls :: "effect list \<Rightarrow> effect list" where
  "network_calls effs = filter (\<lambda>e. case e of Fetch url method body \<Rightarrow> True | _ \<Rightarrow> False) effs"

section \<open>The request body in the words of the specification\<close>

text \<open>
  The specification describes the request as the part \<^verbatim>\<open>bundle\<close> followed by one text
  part for each of the nine options whose value is not empty, under the option's own
  name. This is written down here field by field, to be compared with
  \<^const>\<open>payload\<close>, which loops over \<^const>\<open>entries\<close>.
\<close>

definition spec_text_part :: "string \<Rightarrow> jsstring \<Rightarrow> FormData" where
  "spec_text_part key v = (if v = [] then [] else [(key, TextPart v)])"

definition spec_request_body :: "File \<Rightarrow> FormState \<Rightarrow> FormData" where
  "spec_request_body archive fs =
     (''bundle'', FilePart archive) #
     spec_text_part ''appName'' (appName fs) @
     spec_text_part ''version'' (version fs) @
     spec_text_part ''entryPoint'' (entryPoint fs) @
     spec_text_part ''base'' (base fs) @
     spec_text_part ''iconPath'' (iconPath fs) @
     spec_text_part ''includes'' (includes fs) @
     spec_text_part ''excludes'' (excludes fs) @
     spec_text_part ''includeFiles'' (includeFiles fs) @
     spec_text_part ''targetName'' (targetName fs)"

section \<open>Archive intake\<close>

text \<open>\<^const>\<open>endsWith\<close> is the suffix relation of the list library.\<close>

lemma endsWith_suffix: "endsWith s t \<longleftrightarrow> suffix t s"
proof
  assume "endsWith s t"
  then have "s = take (length s - length t) s @ t"
    by (metis endsWith_def append_take_drop_id)
  then show "suffix t s" by (rule suffixI)
next
  assume "suffix t s"
  then obtain p where "s = p @ t" by (auto simp: suffix_def)
  then show "endsWith s t" by (simp add: endsWith_def)
qed

text \<open>
  C10. Called with no file, \<^verbatim>\<open>handleArchiveSelect\<close> clears the selected archive and
  leaves the status, the status message and the log lines as they were (the form
  options too). A status \<open>error\<close> from before therefore stays.
\<close>

theorem handleArchiveSelect_null:
  "selectedArchive (handleArchiveSelect None st) = None \<and>
   status (handleArchiveSelect None st) = status st \<and>
   statusMessage (handleArchiveSelect None st) = statusMessage st \<and>
   logs (handleArchiveSelect None st) = logs st \<and>
   formState (handleArchiveSelect None st) = formState st"
  by (simp add: handleArchiveSelect_def)

text \<open>
  C7. For a file whose name does not end in the four code units \<^verbatim>\<open>.zip\<close> (compared
  as they are, so \<^verbatim>\<open>.ZIP\<close> does not count), \<^verbatim>\<open>handleArchiveSelect\<close> sets the status
  to \<open>error\<close> and the message to "Only .zip archives are supported.", and the
  selected archive is the one from before.
\<close>

theorem handleArchiveSelect_rejects:
  assumes "\<not> suffix ''.zip'' (name f)"
  shows "status (handleArchiveSelect (Some f) st) = error \<and>
         statusMessage (handleArchiveSelect (Some f) st) =
           JStr ''Only .zip archives are supported.'' \<and>
         selectedArchive (handleArchiveSelect (Some f) st) = selectedArchive st"
  using assms by (simp add: handleArchiveSelect_def endsWith_suffix)

theorem handleArchiveSelect_rejects_witness:
  "\<not> suffix ''.zip'' (name \<lparr>name = ''notes.ZIP'', bytes = [1, 2]\<rparr>) \<and>
   status (handleArchiveSelect (Some \<lparr>name = ''notes.ZIP'', bytes = [1, 2]\<rparr>)
     (HomePage_init\<lparr>selectedArchive := Some \<lparr>name = ''project.zip'', bytes = [80, 75]\<rparr>\<rparr>))
     = error \<and>
   statusMessage (handleArchiveSelect (Some \<lparr>name = ''notes.ZIP'', bytes = [1, 2]\<rparr>)
     (HomePage_init\<lparr>selectedArchive := Some \<lparr>name = ''project.zip'', bytes = [80, 75]\<rparr>\<rparr>))
     = JStr ''Only .zip archives are supported.'' \<and>
   selectedArchive (handleArchiveSelect (Some \<lparr>name = ''notes.ZIP'', bytes = [1, 2]\<rparr>)
     (HomePage_init\<lparr>selectedArchive := Some \<lparr>name = ''project.zip'', bytes = [80, 75]\<rparr>\<rparr>))
     = Some \<lparr>name = ''project.zip'', bytes = [80, 75]\<rparr>"
proof -
  have h: "\<not> suffix ''.zip'' (name \<lparr>name = ''notes.ZIP'', bytes = [1, 2]\<rparr>)"
    by (simp add: endsWith_suffix [symmetric] endsWith_def)
  show ?thesis
    using h handleArchiveSelect_rejects [OF h,
      of "HomePage_init\<lparr>selectedArchive := Some \<lparr>name = ''project.zip'', bytes = [80, 75]\<rparr>\<rparr>"]
    by simp
qed

text \<open>
  C4, as the claim states it, fails: accepting an archive does not clear the log lines.
  After a build that the service rejected with two lines of details, selecting
  \<^verbatim>\<open>project.zip\<close> anew leaves both lines in the log.
\<close>

theorem handleArchiveSelect_keeps_logs_counterexample:
  "suffix ''.zip'' (name \<lparr>name = ''project.zip'', bytes = [80, 75]\<rparr>) \<and>
   logs (handleArchiveSelect (Some \<lparr>name = ''project.zip'', bytes = [80, 75]\<rparr>)
     (fst (onSubmit
        (HomePage_init\<lparr>selectedArchive := Some \<lparr>name = ''project.zip'', bytes = [80, 75]\<rparr>\<rparr>)
        \<lparr>fetch = Inr \<lparr>ok = False,
                        json = Inr (JObj [(''message'', JStr ''bad entry point''),
                                          (''details'', JArr [JStr ''line1'', JStr ''line2''])]),
                        blob = Inr []\<rparr>,
         createObjectURL = Inr ''blob:0'', throws = (\<lambda>c. None),
         toLowerCase = map lower_unit\<rparr>)))
     = [JStr ''line1'', JStr ''line2'']"
  by (simp add: endsWith_suffix [symmetric] handleArchiveSelect_def endsWith_def onSubmit_def
      onSubmit_begin_def onSubmit_settle_def onSubmit_rejected_def destructure_def
      HomePage_init_def)

text \<open>
  C4, amended. For a file whose name ends in \<^verbatim>\<open>.zip\<close>, \<^verbatim>\<open>handleArchiveSelect\<close> sets
  the status to \<open>idle\<close>, the status message to the empty string and the selected
  archive to that file; the log lines and the form options stay as they were.
\<close>

theorem handleArchiveSelect_accepts:
  assumes "suffix ''.zip'' (name f)"
  shows "status (handleArchiveSelect (Some f) st) = idle \<and>
         statusMessage (handleArchiveSelect (Some f) st) = JStr '''' \<and>
         selectedArchive (handleArchiveSelect (Some f) st) = Some f \<and>
         logs (handleArchiveSelect (Some f) st) = logs st \<and>
         formState (handleArchiveSelect (Some f) st) = formState st"
  using assms by (simp add: handleArchiveSelect_def endsWith_suffix)

theorem handleArchiveSelect_accepts_witness:
  "suffix ''.zip'' (name \<lparr>name = ''project.zip'', bytes = [80, 75]\<rparr>) \<and>
   status (handleArchiveSelect (Some \<lparr>name = ''project.zip'', bytes = [80, 75]\<rparr>)
     (HomePage_init\<lparr>status := error, logs := [JStr ''line1'']\<rparr>)) = idle \<and>
   statusMessage (handleArchiveSelect (Some \<lparr>name = ''project.zip'', bytes = [80, 75]\<rparr>)
     (HomePage_init\<lparr>status := error, logs := [JStr ''line1'']\<rparr>)) = JStr '''' \<and>
   selectedArchive (handleArchiveSelect (Some \<lparr>name = ''project.zip'', bytes = [80, 75]\<rparr>)
     (HomePage_init\<lparr>status := error, logs := [JStr ''line1'']\<rparr>))
     = Some \<lparr>name = ''project.zip'', bytes = [80, 75]\<rparr> \<and>
   logs (handleArchiveSelect (Some \<lparr>name = ''project.zip'', bytes = [80, 75]\<rparr>)
     (HomePage_init\<lparr>status := error, logs := [JStr ''line1'']\<rparr>)) = [JStr ''line1'']"
proof -
  have h: "suffix ''.zip'' (name \<lparr>name = ''project.zip'', bytes = [80, 75]\<rparr>)"
    by (simp add: endsWith_suffix [symmetric] endsWith_def)
  show ?thesis
    using h handleArchiveSelect_accepts [OF h,
      of "HomePage_init\<lparr>status := error, logs := [JStr ''line1'']\<rparr>"]
    by (simp add: HomePage_init_def)
qed

section \<open>The default options\<close>

text \<open>
  C5, as the claim states it, fails: in the default options the application name, the
  version and the entry point are not empty, both at the start and after a reset.
\<close>

theorem defaultFormState_not_empty_counterexample:
  "appName (formState HomePage_init) \<noteq> '''' \<and>
   version (formState HomePage_init) \<noteq> '''' \<and>
   entryPoint (formState HomePage_init) \<noteq> '''' \<and>
   appName (formState (resetForm HomePage_init)) \<noteq> ''''"
  by (simp add: HomePage_init_def resetForm_def defaultFormState_def str_def)

text \<open>
  C5, amended. The options at the start and the options after \<^verbatim>\<open>resetForm\<close> are the
  same snapshot: \<^verbatim>\<open>appName\<close> is "MyApplication", \<^verbatim>\<open>version\<close> is "1.0.0",
  \<^verbatim>\<open>entryPoint\<close> is "main.py", \<^verbatim>\<open>base\<close> is "console", and the other five fields are
  the empty string.
\<close>

theorem defaultFormState_fields:
  "formState HomePage_init = defaultFormState \<and>
   formState (resetForm st) = defaultFormState \<and>
   entries defaultFormState =
     [(''appName'', str ''MyApplication''),
      (''version'', str ''1.0.0''),
      (''entryPoint'', str ''main.py''),
      (''base'', str ''console''),
      (''iconPath'', ''''),
      (''includes'', ''''),
      (''excludes'', ''''),
      (''includeFiles'', ''''),
      (''targetName'', '''')]"
  by (simp add: HomePage_init_def resetForm_def defaultFormState_def entries_def str_def)

section \<open>Submission: the guard and the log\<close>

text \<open>
  C2. A submission with no archive selected ends in status \<open>error\<close> with the message
  "Upload a project archive before building."; the state never passes through
  \<open>working\<close>, no request body is built, and the effects of the handler contain no
  \<^verbatim>\<open>fetch\<close>.
\<close>

theorem onSubmit_without_archive:
  assumes "selectedArchive st = None"
  shows "status (fst (onSubmit st br)) = error \<and>
         statusMessage (fst (onSubmit st br)) = JStr ''Upload a project archive before building.'' \<and>
         status (fst (onSubmit_begin st)) = error \<and>
         snd (onSubmit_begin st) = None \<and>
         network_calls (snd (onSubmit st br)) = []"
  using assms by (simp add: onSubmit_def onSubmit_begin_def network_calls_def)

theorem onSubmit_without_archive_witness:
  "selectedArchive HomePage_init = None \<and>
   status (fst (onSubmit HomePage_init \<lparr>fetch = Inl (ErrorInstance ''Failed to fetch''), createObjectURL = Inr ''blob:0'', throws = (\<lambda>c. None),
      toLowerCase = map lower_unit\<rparr>)) = error \<and>
   statusMessage (fst (onSubmit HomePage_init \<lparr>fetch = Inl (ErrorInstance ''Failed to fetch''), createObjectURL = Inr ''blob:0'', throws = (\<lambda>c. None),
      toLowerCase = map lower_unit\<rparr>)) = JStr ''Upload a project archive before building.'' \<and>
   network_calls (snd (onSubmit HomePage_init \<lparr>fetch = Inl (ErrorInstance ''Failed to fetch''), createObjectURL = Inr ''blob:0'', throws = (\<lambda>c. None),
      toLowerCase = map lower_unit\<rparr>)) = []"
proof -
  have h: "selectedArchive HomePage_init = None" by (simp add: HomePage_init_def)
  show ?thesis
    using h onSubmit_without_archive [OF h, of "\<lparr>fetch = Inl (ErrorInstance ''Failed to fetch''), createObjectURL = Inr ''blob:0'', throws = (\<lambda>c. None),
      toLowerCase = map lower_unit\<rparr>"]
    by simp
qed

section \<open>Submission: the log\<close>

lemma run_calls_subset: "set (fst (run_calls thr cs)) \<subseteq> set cs"
  by (induction cs) (auto split: option.splits prod.splits)

lemma run_calls_ok: "\<forall>c\<in>set cs. thr c = None \<Longrightarrow> run_calls thr cs = (cs, None)"
  by (induction cs) simp_all

lemma run_calls_throw:
  "\<forall>p\<in>set before. thr p = None \<Longrightarrow> thr c = Some err \<Longrightarrow>
   run_calls thr (before @ c # after) = (before, Some err)"
  by (induction before) simp_all

lemma onSubmit_rejected_throw:
  "json r = Inl e \<Longrightarrow>
   onSubmit_rejected r st = st\<lparr>status := error, statusMessage := JStr ''Build failed.''\<rparr>"
  by (simp add: onSubmit_rejected_def destructure_def)

lemma onSubmit_rejected_null:
  "json r = Inr JNull \<Longrightarrow>
   onSubmit_rejected r st = st\<lparr>status := error, statusMessage := JStr ''Build failed.''\<rparr>"
  by (simp add: onSubmit_rejected_def destructure_def)

lemma onSubmit_rejected_object:
  "json r = Inr (JObj kvs) \<Longrightarrow>
   onSubmit_rejected r st =
     st\<lparr>status := error,
        statusMessage := nullish_or (map_of kvs ''message'') (JStr ''Build failed.''),
        logs := (case map_of kvs ''details'' of Some (JArr ds) \<Rightarrow> ds | _ \<Rightarrow> logs st)\<rparr>"
  by (simp add: onSubmit_rejected_def destructure_def split: option.splits jsval.splits)

lemma onSubmit_rejected_other:
  "json r = Inr v \<Longrightarrow> \<forall>kvs. v \<noteq> JObj kvs \<Longrightarrow>
   onSubmit_rejected r st = st\<lparr>status := error, statusMessage := JStr ''Build failed.''\<rparr>"
  by (cases v) (simp_all add: onSubmit_rejected_def destructure_def)

lemma onSubmit_rejected_logs:
  "logs (onSubmit_rejected r st) = logs st \<or>
   (\<exists>kvs. json r = Inr (JObj kvs) \<and>
          map_of kvs ''details'' = Some (JArr (logs (onSubmit_rejected r st))))"
proof (cases "json r")
  case (Inl e)
  then show ?thesis by (simp add: onSubmit_rejected_throw)
next
  case (Inr v)
  show ?thesis
  proof (cases "\<exists>kvs. v = JObj kvs")
    case True
    then obtain kvs where v: "v = JObj kvs" by blast
    show ?thesis
      using Inr v by (auto simp: onSubmit_rejected_object split: option.splits jsval.splits)
  next
    case False
    then show ?thesis using Inr by (simp add: onSubmit_rejected_other)
  qed
qed

lemma onSubmit_settle_logs:
  "logs (fst (onSubmit_settle fs br st)) = logs st \<or>
   (\<exists>r kvs. fetch br = Inr r \<and> \<not> ok r \<and> json r = Inr (JObj kvs) \<and>
            map_of kvs ''details'' = Some (JArr (logs (fst (onSubmit_settle fs br st)))))"
proof (cases "fetch br")
  case (Inl err)
  then show ?thesis by (simp add: onSubmit_settle_def onSubmit_catch_def)
next
  case (Inr r)
  show ?thesis
  proof (cases "ok r")
    case True
    then show ?thesis
      using Inr
      by (simp add: onSubmit_settle_def onSubmit_catch_def
          split: sum.splits prod.splits option.splits)
  next
    case False
    then have "fst (onSubmit_settle fs br st) = onSubmit_rejected r st"
      using Inr by (simp add: onSubmit_settle_def)
    then show ?thesis
      using onSubmit_rejected_logs [of r st] Inr False by auto
  qed
qed

lemma onSubmit_guarded:
  "selectedArchive st = None \<Longrightarrow>
   onSubmit st br =
     (st\<lparr>logs := [], status := error,
         statusMessage := JStr ''Upload a project archive before building.''\<rparr>,
      [PreventDefault])"
  by (simp add: onSubmit_def onSubmit_begin_def)

lemma onSubmit_dispatched:
  "selectedArchive st = Some archive \<Longrightarrow>
   fst (onSubmit st br) =
     fst (onSubmit_settle (formState st) br
       (st\<lparr>logs := [], status := working,
           statusMessage := JStr ''Uploading and building executable with cx_Freeze...''\<rparr>))"
  by (simp add: onSubmit_def onSubmit_begin_def split: prod.splits)

lemma onSubmit_begin_old_log: "onSubmit_begin (st\<lparr>logs := old\<rparr>) = onSubmit_begin st"
  by (simp add: onSubmit_begin_def Let_def split: option.splits)

text \<open>
  C8. The state that \<^verbatim>\<open>onSubmit\<close> leaves before it awaits anything has an empty log,
  whatever the state before and whether or not the guard lets the submission through.
  So the second of two submissions starts from an empty log, whatever the first one
  left behind. For the handler as a whole: when the guard rejects, the log is empty at
  the end; the log before the submission has no influence on the state and the effects
  of the submission; and at the end the log is empty unless the service answered not ok
  with an object whose \<^verbatim>\<open>details\<close> is an array, which is then the log.
\<close>

theorem onSubmit_clears_logs:
  "logs (fst (onSubmit_begin st)) = [] \<and>
   logs (fst (onSubmit_begin (fst (onSubmit st0 br0)))) = [] \<and>
   (selectedArchive st = None \<longrightarrow> logs (fst (onSubmit st br)) = []) \<and>
   onSubmit (st\<lparr>logs := old\<rparr>) br = onSubmit st br \<and>
   (logs (fst (onSubmit st br)) = [] \<or>
    (\<exists>archive r kvs. selectedArchive st = Some archive \<and> fetch br = Inr r \<and> \<not> ok r \<and>
       json r = Inr (JObj kvs) \<and>
       map_of kvs ''details'' = Some (JArr (logs (fst (onSubmit st br))))))"
proof -
  have start: "logs (fst (onSubmit_begin s)) = []" for s
    by (simp add: onSubmit_begin_def Let_def split: option.splits)
  have guard: "selectedArchive st = None \<longrightarrow> logs (fst (onSubmit st br)) = []"
    by (simp add: onSubmit_guarded)
  have old: "onSubmit (st\<lparr>logs := old\<rparr>) br = onSubmit st br"
    by (simp add: onSubmit_def onSubmit_begin_old_log split: prod.splits option.splits)
  have final: "logs (fst (onSubmit st br)) = [] \<or>
    (\<exists>archive r kvs. selectedArchive st = Some archive \<and> fetch br = Inr r \<and> \<not> ok r \<and>
       json r = Inr (JObj kvs) \<and>
       map_of kvs ''details'' = Some (JArr (logs (fst (onSubmit st br)))))"
  proof (cases "selectedArchive st")
    case None
    then show ?thesis by (simp add: onSubmit_guarded)
  next
    case (Some archive)
    show ?thesis
      using onSubmit_settle_logs [of "formState st" br
          "st\<lparr>logs := [], status := working,
              statusMessage := JStr ''Uploading and building executable with cx_Freeze...''\<rparr>"]
      by (auto simp: onSubmit_dispatched [OF Some] Some)
  qed
  from start [of st] start [of "fst (onSubmit st0 br0)"] guard old final
  show ?thesis by (intro conjI)
qed

theorem onSubmit_clears_logs_witness:
  "logs (fst (onSubmit
     (HomePage_init\<lparr>selectedArchive := Some \<lparr>name = ''project.zip'', bytes = [80, 75]\<rparr>\<rparr>)
     \<lparr>fetch = Inr \<lparr>ok = False,
                     json = Inr (JObj [(''details'', JArr [JStr ''line1'', JStr ''line2''])]),
                     blob = Inr []\<rparr>,
      createObjectURL = Inr ''blob:0'', throws = (\<lambda>c. None),
      toLowerCase = map lower_unit\<rparr>)) = [JStr ''line1'', JStr ''line2''] \<and>
   logs (fst (onSubmit_begin (fst (onSubmit
     (HomePage_init\<lparr>selectedArchive := Some \<lparr>name = ''project.zip'', bytes = [80, 75]\<rparr>\<rparr>)
     \<lparr>fetch = Inr \<lparr>ok = False,
                     json = Inr (JObj [(''details'', JArr [JStr ''line1'', JStr ''line2''])]),
                     blob = Inr []\<rparr>,
      createObjectURL = Inr ''blob:0'', throws = (\<lambda>c. None),
      toLowerCase = map lower_unit\<rparr>)))) = [] \<and>
   selectedArchive (HomePage_init\<lparr>logs := [JStr ''old1'', JStr ''old2'']\<rparr>) = None \<and>
   logs (fst (onSubmit (HomePage_init\<lparr>logs := [JStr ''old1'', JStr ''old2'']\<rparr>)
     \<lparr>fetch = Inl (ErrorInstance ''Failed to fetch''),
      createObjectURL = Inr ''blob:0'', throws = (\<lambda>c. None),
      toLowerCase = map lower_unit\<rparr>)) = []"
proof -
  have first: "logs (fst (onSubmit
     (HomePage_init\<lparr>selectedArchive := Some \<lparr>name = ''project.zip'', bytes = [80, 75]\<rparr>\<rparr>)
     \<lparr>fetch = Inr \<lparr>ok = False,
                     json = Inr (JObj [(''details'', JArr [JStr ''line1'', JStr ''line2''])]),
                     blob = Inr []\<rparr>,
      createObjectURL = Inr ''blob:0'', throws = (\<lambda>c. None),
      toLowerCase = map lower_unit\<rparr>)) = [JStr ''line1'', JStr ''line2'']"
    by (simp add: onSubmit_def onSubmit_begin_def onSubmit_settle_def onSubmit_rejected_def
        destructure_def HomePage_init_def)
  have none: "selectedArchive (HomePage_init\<lparr>logs := [JStr ''old1'', JStr ''old2'']\<rparr>) = None"
    by (simp add: HomePage_init_def)
  note second = onSubmit_clears_logs [of HomePage_init
      "HomePage_init\<lparr>selectedArchive := Some \<lparr>name = ''project.zip'', bytes = [80, 75]\<rparr>\<rparr>"
      "\<lparr>fetch = Inr \<lparr>ok = False,
                     json = Inr (JObj [(''details'', JArr [JStr ''line1'', JStr ''line2''])]),
                     blob = Inr []\<rparr>,
      createObjectURL = Inr ''blob:0'', throws = (\<lambda>c. None),
      toLowerCase = map lower_unit\<rparr>", THEN conjunct2, THEN conjunct1]
  note third = onSubmit_clears_logs [of "HomePage_init\<lparr>logs := [JStr ''old1'', JStr ''old2'']\<rparr>"
      HomePage_init
      "\<lparr>fetch = Inl (ErrorInstance ''Failed to fetch''),
      createObjectURL = Inr ''blob:0'', throws = (\<lambda>c. None),
      toLowerCase = map lower_unit\<rparr>"
      "\<lparr>fetch = Inl (ErrorInstance ''Failed to fetch''),
      createObjectURL = Inr ''blob:0'', throws = (\<lambda>c. None),
      toLowerCase = map lower_unit\<rparr>", THEN conjunct2, THEN conjunct2, THEN conjunct1]
  from first second none third [rule_format, OF none] show ?thesis
    by (intro conjI)
qed

section \<open>Submission: the request body\<close>

lemma settle_no_fetch: "network_calls (snd (onSubmit_settle fs br st)) = []"
  by (simp add: onSubmit_settle_def network_calls_def filter_map o_def
      split: sum.splits prod.splits option.splits)

lemma payload_spec: "payload archive fs = spec_request_body archive fs"
  by (simp add: payload_def spec_request_body_def spec_text_part_def entries_def truthy_str_def)

lemma payload_text_parts:
  "(key, TextPart v) \<in> set (payload archive fs) \<longleftrightarrow> (key, v) \<in> set (entries fs) \<and> v \<noteq> ''''"
  by (auto simp: payload_def truthy_str_def)

lemma payload_file_parts:
  "(key, FilePart f) \<in> set (payload archive fs) \<longleftrightarrow> key = ''bundle'' \<and> f = archive"
  by (auto simp: payload_def)

lemma onSubmit_fetches:
  "selectedArchive st = Some archive \<Longrightarrow>
   network_calls (snd (onSubmit st br)) =
     [Fetch ''/api/build'' ''POST'' (payload archive (formState st))]"
proof -
  assume a: "selectedArchive st = Some archive"
  obtain st2 effs where s: "onSubmit_settle (formState st) br
       (st\<lparr>logs := [], status := working,
           statusMessage := JStr ''Uploading and building executable with cx_Freeze...''\<rparr>) = (st2, effs)"
    by (cases "onSubmit_settle (formState st) br
       (st\<lparr>logs := [], status := working,
           statusMessage := JStr ''Uploading and building executable with cx_Freeze...''\<rparr>)")
  have "network_calls effs = []"
    using settle_no_fetch [of "formState st" br "st\<lparr>logs := [], status := working,
           statusMessage := JStr ''Uploading and building executable with cx_Freeze...''\<rparr>"] s
    by simp
  then show ?thesis
    using a s by (simp add: onSubmit_def onSubmit_begin_def network_calls_def)
qed

text \<open>
  C6. With an archive selected, the handler issues exactly one request, a POST to
  \<^verbatim>\<open>/api/build\<close>. Its body holds the archive under the name \<^verbatim>\<open>bundle\<close> and no other
  file part, and a text part \<open>(key, v)\<close> exactly for the options \<open>key\<close> whose value
  \<open>v\<close> is not the empty string; an option with an empty value has no part.
\<close>

theorem onSubmit_request_body:
  assumes "selectedArchive st = Some archive"
  shows "snd (onSubmit_begin st) = Some (spec_request_body archive (formState st)) \<and>
         network_calls (snd (onSubmit st br)) =
           [Fetch ''/api/build'' ''POST'' (spec_request_body archive (formState st))] \<and>
         (\<forall>key v. (key, TextPart v) \<in> set (spec_request_body archive (formState st)) \<longleftrightarrow>
                     (key, v) \<in> set (entries (formState st)) \<and> v \<noteq> '''') \<and>
         (\<forall>key f. (key, FilePart f) \<in> set (spec_request_body archive (formState st)) \<longleftrightarrow>
                     key = ''bundle'' \<and> f = archive)"
proof -
  have "snd (onSubmit_begin st) = Some (spec_request_body archive (formState st))"
    using assms by (simp add: onSubmit_begin_def payload_spec)
  moreover have "network_calls (snd (onSubmit st br)) =
           [Fetch ''/api/build'' ''POST'' (spec_request_body archive (formState st))]"
    using onSubmit_fetches [OF assms] by (simp add: payload_spec)
  ultimately show ?thesis
    using payload_text_parts [of _ _ archive "formState st"]
      payload_file_parts [of _ _ archive "formState st"]
    by (simp add: payload_spec)
qed

theorem onSubmit_request_body_witness:
  "snd (onSubmit_begin
     (HomePage_init\<lparr>selectedArchive := Some \<lparr>name = ''project.zip'', bytes = [80, 75]\<rparr>\<rparr>))
   = Some [(''bundle'', FilePart \<lparr>name = ''project.zip'', bytes = [80, 75]\<rparr>),
           (''appName'', TextPart (str ''MyApplication'')),
           (''version'', TextPart (str ''1.0.0'')),
           (''entryPoint'', TextPart (str ''main.py'')),
           (''base'', TextPart (str ''console''))]"
proof -
  have a: "selectedArchive
      (HomePage_init\<lparr>selectedArchive := Some \<lparr>name = ''project.zip'', bytes = [80, 75]\<rparr>\<rparr>)
      = Some \<lparr>name = ''project.zip'', bytes = [80, 75]\<rparr>"
    by simp
  show ?thesis
    using onSubmit_request_body [OF a]
    by (simp add: spec_request_body_def spec_text_part_def HomePage_init_def defaultFormState_def
        str_def)
qed

section \<open>Submission: a response that is not ok\<close>

lemma nullish_or_cases:
  "nullish_or m d = (case m of None \<Rightarrow> d | Some JNull \<Rightarrow> d | Some v \<Rightarrow> v)"
  by (cases "(m, d)" rule: nullish_or.cases) simp_all

lemma onSubmit_not_ok:
  "selectedArchive st = Some archive \<Longrightarrow> fetch br = Inr r \<Longrightarrow> \<not> ok r \<Longrightarrow>
   fst (onSubmit st br) =
     onSubmit_rejected r
       (st\<lparr>logs := [], status := working,
           statusMessage := JStr ''Uploading and building executable with cx_Freeze...''\<rparr>)"
  by (simp add: onSubmit_def onSubmit_begin_def onSubmit_settle_def)

text \<open>
  C1. When the response is not ok the status becomes \<open>error\<close>. If reading the body as
  JSON fails, the message is "Build failed." and the log is empty. If it gives an object,
  the message is the object's \<^verbatim>\<open>message\<close>, or "Build failed." when the object has none
  (or has \<^verbatim>\<open>null\<close> there), and the log is the object's \<^verbatim>\<open>details\<close> when that is an
  array, and empty otherwise. If it gives a value that is not an object, which has no
  \<^verbatim>\<open>message\<close> and no \<^verbatim>\<open>details\<close>, the message is "Build failed." and the log is
  empty.
\<close>

theorem onSubmit_non_success:
  assumes "selectedArchive st = Some archive" and "fetch br = Inr r" and "\<not> ok r"
  shows "status (fst (onSubmit st br)) = error \<and>
    (\<forall>e. json r = Inl e \<longrightarrow>
       statusMessage (fst (onSubmit st br)) = JStr ''Build failed.'' \<and>
       logs (fst (onSubmit st br)) = []) \<and>
    (\<forall>kvs. json r = Inr (JObj kvs) \<longrightarrow>
       statusMessage (fst (onSubmit st br)) =
         (case map_of kvs ''message'' of
            None \<Rightarrow> JStr ''Build failed.''
          | Some JNull \<Rightarrow> JStr ''Build failed.''
          | Some m \<Rightarrow> m) \<and>
       logs (fst (onSubmit st br)) =
         (case map_of kvs ''details'' of
            Some (JArr ds) \<Rightarrow> ds
          | _ \<Rightarrow> [])) \<and>
    (\<forall>v. json r = Inr v \<longrightarrow> (\<forall>kvs. v \<noteq> JObj kvs) \<longrightarrow>
       statusMessage (fst (onSubmit st br)) = JStr ''Build failed.'' \<and>
       logs (fst (onSubmit st br)) = [])"
proof -
  note step = onSubmit_not_ok [OF assms]
  have "status (fst (onSubmit st br)) = error"
  proof (cases "json r")
    case (Inl e)
    then show ?thesis by (simp add: step onSubmit_rejected_throw)
  next
    case (Inr v)
    then show ?thesis
      by (cases v) (simp_all add: step onSubmit_rejected_null onSubmit_rejected_object
          onSubmit_rejected_other)
  qed
  moreover have "\<forall>e. json r = Inl e \<longrightarrow>
       statusMessage (fst (onSubmit st br)) = JStr ''Build failed.'' \<and>
       logs (fst (onSubmit st br)) = []"
    by (simp add: step onSubmit_rejected_throw)
  moreover have "\<forall>kvs. json r = Inr (JObj kvs) \<longrightarrow>
       statusMessage (fst (onSubmit st br)) =
         (case map_of kvs ''message'' of
            None \<Rightarrow> JStr ''Build failed.''
          | Some JNull \<Rightarrow> JStr ''Build failed.''
          | Some m \<Rightarrow> m) \<and>
       logs (fst (onSubmit st br)) =
         (case map_of kvs ''details'' of
            Some (JArr ds) \<Rightarrow> ds
          | _ \<Rightarrow> [])"
    by (simp add: step onSubmit_rejected_object nullish_or_cases split: option.splits jsval.splits)
  moreover have "\<forall>v. json r = Inr v \<longrightarrow> (\<forall>kvs. v \<noteq> JObj kvs) \<longrightarrow>
       statusMessage (fst (onSubmit st br)) = JStr ''Build failed.'' \<and>
       logs (fst (onSubmit st br)) = []"
    by (simp add: step onSubmit_rejected_other)
  ultimately show ?thesis by blast
qed

theorem onSubmit_non_success_witness:
  "status (fst (onSubmit
     (HomePage_init\<lparr>selectedArchive := Some \<lparr>name = ''project.zip'', bytes = [80, 75]\<rparr>\<rparr>)
     \<lparr>fetch = Inr \<lparr>ok = False,
                     json = Inr (JObj [(''message'', JStr ''bad entry point''),
                                       (''details'', JArr [JStr ''line1'', JStr ''line2''])]),
                     blob = Inr []\<rparr>,
      createObjectURL = Inr ''blob:0'', throws = (\<lambda>c. None),
      toLowerCase = map lower_unit\<rparr>)) = error \<and>
   statusMessage (fst (onSubmit
     (HomePage_init\<lparr>selectedArchive := Some \<lparr>name = ''project.zip'', bytes = [80, 75]\<rparr>\<rparr>)
     \<lparr>fetch = Inr \<lparr>ok = False,
                     json = Inr (JObj [(''message'', JStr ''bad entry point''),
                                       (''details'', JArr [JStr ''line1'', JStr ''line2''])]),
                     blob = Inr []\<rparr>,
      createObjectURL = Inr ''blob:0'', throws = (\<lambda>c. None),
      toLowerCase = map lower_unit\<rparr>)) = JStr ''bad entry point'' \<and>
   logs (fst (onSubmit
     (HomePage_init\<lparr>selectedArchive := Some \<lparr>name = ''project.zip'', bytes = [80, 75]\<rparr>\<rparr>)
     \<lparr>fetch = Inr \<lparr>ok = False,
                     json = Inr (JObj [(''message'', JStr ''bad entry point''),
                                       (''details'', JArr [JStr ''line1'', JStr ''line2''])]),
                     blob = Inr []\<rparr>,
      createObjectURL = Inr ''blob:0'', throws = (\<lambda>c. None),
      toLowerCase = map lower_unit\<rparr>)) = [JStr ''line1'', JStr ''line2'']"
proof -
  have a: "selectedArchive
      (HomePage_init\<lparr>selectedArchive := Some \<lparr>name = ''project.zip'', bytes = [80, 75]\<rparr>\<rparr>)
      = Some \<lparr>name = ''project.zip'', bytes = [80, 75]\<rparr>"
    by simp
  have f: "fetch \<lparr>fetch = Inr \<lparr>ok = False,
                     json = Inr (JObj [(''message'', JStr ''bad entry point''),
                                       (''details'', JArr [JStr ''line1'', JStr ''line2''])]),
                     blob = Inr []\<rparr>,
      createObjectURL = Inr ''blob:0'', throws = (\<lambda>c. None),
      toLowerCase = map lower_unit\<rparr> = Inr \<lparr>ok = False,
                     json = Inr (JObj [(''message'', JStr ''bad entry point''),
                                       (''details'', JArr [JStr ''line1'', JStr ''line2''])]),
                     blob = Inr []\<rparr>"
    by simp
  have n: "\<not> ok \<lparr>ok = False,
                     json = Inr (JObj [(''message'', JStr ''bad entry point''),
                                       (''details'', JArr [JStr ''line1'', JStr ''line2''])]),
                     blob = Inr []\<rparr>"
    by simp
  show ?thesis
    using onSubmit_non_success [OF a f n] by simp
qed

section \<open>Submission: a thrown failure\<close>

lemma onSubmit_caught:
  "selectedArchive st = Some archive \<Longrightarrow>
   fst (onSubmit_settle (formState st) br
     (st\<lparr>logs := [], status := working,
         statusMessage := JStr ''Uploading and building executable with cx_Freeze...''\<rparr>)) =
   onSubmit_catch err
     (st\<lparr>logs := [], status := working,
         statusMessage := JStr ''Uploading and building executable with cx_Freeze...''\<rparr>) \<Longrightarrow>
   status (fst (onSubmit st br)) = error \<and>
   statusMessage (fst (onSubmit st br)) =
     (case err of
        ErrorInstance m \<Rightarrow> JStr m
      | NotAnError v \<Rightarrow> JStr ''Unexpected error while building.'')"
  by (simp add: onSubmit_dispatched onSubmit_catch_def)

text \<open>
  C9. Whatever is thrown inside the \<^verbatim>\<open>try\<close> on the way to the download sets the status
  to \<open>error\<close>; the message is the \<^verbatim>\<open>message\<close> of the thrown value when that is an
  \<^verbatim>\<open>Error\<close>, and "Unexpected error while building." otherwise. The places are: \<^verbatim>\<open>fetch\<close>
  rejects; the response is ok and reading its blob rejects; the blob is read and
  \<^verbatim>\<open>URL.createObjectURL\<close> throws; the address is made and one of the eight steps that
  follow throws, the calls before it having returned.
\<close>

theorem onSubmit_thrown:
  assumes "selectedArchive st = Some archive"
    and "fetch br = Inl err \<or>
         (\<exists>r. fetch br = Inr r \<and> ok r \<and> blob r = Inl err) \<or>
         (\<exists>r b. fetch br = Inr r \<and> ok r \<and> blob r = Inr b \<and> createObjectURL br = Inl err) \<or>
         (\<exists>r b url before c after.
            fetch br = Inr r \<and> ok r \<and> blob r = Inr b \<and> createObjectURL br = Inr url \<and>
            [CreateElement,
             SetHref url,
             SetDownload (buildName br (formState st) @ str ''.zip''),
             SetDisplay ''none'',
             AppendChild url (buildName br (formState st) @ str ''.zip''),
             Click url (buildName br (formState st) @ str ''.zip''),
             Remove,
             RevokeObjectURL url] = before @ c # after \<and>
            (\<forall>p\<in>set before. throws br p = None) \<and> throws br c = Some err)"
  shows "status (fst (onSubmit st br)) = error \<and>
         statusMessage (fst (onSubmit st br)) =
           (case err of
              ErrorInstance m \<Rightarrow> JStr m
            | NotAnError v \<Rightarrow> JStr ''Unexpected error while building.'')"
proof (rule onSubmit_caught [OF assms(1)])
  let ?st = "st\<lparr>logs := [], status := working,
    statusMessage := JStr ''Uploading and building executable with cx_Freeze...''\<rparr>"
  consider
    (dispatch) "fetch br = Inl err"
  | (reading) r where "fetch br = Inr r" "ok r" "blob r = Inl err"
  | (address) r b where "fetch br = Inr r" "ok r" "blob r = Inr b" "createObjectURL br = Inl err"
  | (later) r b url before c after where
      "fetch br = Inr r" "ok r" "blob r = Inr b" "createObjectURL br = Inr url"
      "anchor_calls url (buildName br (formState st) @ str ''.zip'') = before @ c # after"
      "\<forall>p\<in>set before. throws br p = None" "throws br c = Some err"
    using assms(2) unfolding anchor_calls_def by blast
  then show "fst (onSubmit_settle (formState st) br ?st) = onSubmit_catch err ?st"
  proof cases
    case dispatch
    then show ?thesis by (simp add: onSubmit_settle_def)
  next
    case reading
    then show ?thesis by (simp add: onSubmit_settle_def)
  next
    case address
    then show ?thesis by (simp add: onSubmit_settle_def)
  next
    case later
    have "run_calls (throws br) (anchor_calls url (buildName br (formState st) @ str ''.zip''))
          = (before, Some err)"
      using run_calls_throw [OF later(6,7)] later(5) by simp
    then show ?thesis using later(1-4) by (simp add: onSubmit_settle_def)
  qed
qed

theorem onSubmit_thrown_witness:
  "status (fst (onSubmit
     (HomePage_init\<lparr>selectedArchive := Some \<lparr>name = ''project.zip'', bytes = [80, 75]\<rparr>\<rparr>)
     \<lparr>fetch = Inl (ErrorInstance ''Failed to fetch''),
      createObjectURL = Inr ''blob:0'', throws = (\<lambda>c. None),
      toLowerCase = map lower_unit\<rparr>)) = error \<and>
   statusMessage (fst (onSubmit
     (HomePage_init\<lparr>selectedArchive := Some \<lparr>name = ''project.zip'', bytes = [80, 75]\<rparr>\<rparr>)
     \<lparr>fetch = Inl (ErrorInstance ''Failed to fetch''),
      createObjectURL = Inr ''blob:0'', throws = (\<lambda>c. None),
      toLowerCase = map lower_unit\<rparr>))
     = JStr ''Failed to fetch'' \<and>
   status (fst (onSubmit
     (HomePage_init\<lparr>selectedArchive := Some \<lparr>name = ''project.zip'', bytes = [80, 75]\<rparr>\<rparr>)
     \<lparr>fetch = Inr \<lparr>ok = True, json = Inr JNull, blob = Inl (NotAnError (JStr ''aborted''))\<rparr>,
      createObjectURL = Inr ''blob:0'', throws = (\<lambda>c. None),
      toLowerCase = map lower_unit\<rparr>)) = error \<and>
   statusMessage (fst (onSubmit
     (HomePage_init\<lparr>selectedArchive := Some \<lparr>name = ''project.zip'', bytes = [80, 75]\<rparr>\<rparr>)
     \<lparr>fetch = Inr \<lparr>ok = True, json = Inr JNull, blob = Inl (NotAnError (JStr ''aborted''))\<rparr>,
      createObjectURL = Inr ''blob:0'', throws = (\<lambda>c. None),
      toLowerCase = map lower_unit\<rparr>))
     = JStr ''Unexpected error while building.'' \<and>
   statusMessage (fst (onSubmit
     (HomePage_init\<lparr>selectedArchive := Some \<lparr>name = ''project.zip'', bytes = [80, 75]\<rparr>\<rparr>)
     \<lparr>fetch = Inr \<lparr>ok = True, json = Inr JNull, blob = Inr [77, 90]\<rparr>,
      createObjectURL = Inl (ErrorInstance ''Out of memory''), throws = (\<lambda>c. None),
      toLowerCase = map lower_unit\<rparr>))
     = JStr ''Out of memory'' \<and>
   status (fst (onSubmit
     (HomePage_init\<lparr>selectedArchive := Some \<lparr>name = ''project.zip'', bytes = [80, 75]\<rparr>\<rparr>)
     \<lparr>fetch = Inr \<lparr>ok = True, json = Inr JNull, blob = Inr [77, 90]\<rparr>,
      createObjectURL = Inr ''blob:0'',
      throws = (\<lambda>c. case c of Click url file \<Rightarrow> Some (ErrorInstance ''click failed'')
                         | _ \<Rightarrow> None),
      toLowerCase = map lower_unit\<rparr>)) = error \<and>
   statusMessage (fst (onSubmit
     (HomePage_init\<lparr>selectedArchive := Some \<lparr>name = ''project.zip'', bytes = [80, 75]\<rparr>\<rparr>)
     \<lparr>fetch = Inr \<lparr>ok = True, json = Inr JNull, blob = Inr [77, 90]\<rparr>,
      createObjectURL = Inr ''blob:0'',
      throws = (\<lambda>c. case c of Click url file \<Rightarrow> Some (ErrorInstance ''click failed'')
                         | _ \<Rightarrow> None),
      toLowerCase = map lower_unit\<rparr>))
     = JStr ''click failed''"
proof -
  let ?st = "HomePage_init\<lparr>selectedArchive := Some \<lparr>name = ''project.zip'', bytes = [80, 75]\<rparr>\<rparr>"
  let ?br1 = "\<lparr>fetch = Inl (ErrorInstance ''Failed to fetch''),
      createObjectURL = Inr ''blob:0'', throws = (\<lambda>c. None),
      toLowerCase = map lower_unit\<rparr>"
  let ?br2 = "\<lparr>fetch = Inr \<lparr>ok = True, json = Inr JNull,
                               blob = Inl (NotAnError (JStr ''aborted''))\<rparr>,
      createObjectURL = Inr ''blob:0'', throws = (\<lambda>c. None),
      toLowerCase = map lower_unit\<rparr>"
  let ?br3 = "\<lparr>fetch = Inr \<lparr>ok = True, json = Inr JNull, blob = Inr [77, 90]\<rparr>,
      createObjectURL = Inl (ErrorInstance ''Out of memory''), throws = (\<lambda>c. None),
      toLowerCase = map lower_unit\<rparr>"
  let ?br4 = "\<lparr>fetch = Inr \<lparr>ok = True, json = Inr JNull, blob = Inr [77, 90]\<rparr>,
      createObjectURL = Inr ''blob:0'',
      throws = (\<lambda>c. case c of Click url file \<Rightarrow> Some (ErrorInstance ''click failed'')
                         | _ \<Rightarrow> None),
      toLowerCase = map lower_unit\<rparr>"
  let ?file = "buildName ?br4 (formState ?st) @ str ''.zip''"
  have a: "selectedArchive ?st = Some \<lparr>name = ''project.zip'', bytes = [80, 75]\<rparr>"
    by simp
  have h1: "fetch ?br1 = Inl (ErrorInstance ''Failed to fetch'') \<or>
      (\<exists>r. fetch ?br1 = Inr r \<and> ok r \<and> blob r = Inl (ErrorInstance ''Failed to fetch'')) \<or>
      (\<exists>r b. fetch ?br1 = Inr r \<and> ok r \<and> blob r = Inr b \<and>
             createObjectURL ?br1 = Inl (ErrorInstance ''Failed to fetch'')) \<or>
      (\<exists>r b url before c after.
         fetch ?br1 = Inr r \<and> ok r \<and> blob r = Inr b \<and> createObjectURL ?br1 = Inr url \<and>
         [CreateElement,
          SetHref url,
          SetDownload (buildName ?br1 (formState ?st) @ str ''.zip''),
          SetDisplay ''none'',
          AppendChild url (buildName ?br1 (formState ?st) @ str ''.zip''),
          Click url (buildName ?br1 (formState ?st) @ str ''.zip''),
          Remove,
          RevokeObjectURL url] = before @ c # after \<and>
         (\<forall>p\<in>set before. throws ?br1 p = None) \<and>
         throws ?br1 c = Some (ErrorInstance ''Failed to fetch''))"
    by simp
  have h2: "fetch ?br2 = Inl (NotAnError (JStr ''aborted'')) \<or>
      (\<exists>r. fetch ?br2 = Inr r \<and> ok r \<and> blob r = Inl (NotAnError (JStr ''aborted''))) \<or>
      (\<exists>r b. fetch ?br2 = Inr r \<and> ok r \<and> blob r = Inr b \<and>
             createObjectURL ?br2 = Inl (NotAnError (JStr ''aborted''))) \<or>
      (\<exists>r b url before c after.
         fetch ?br2 = Inr r \<and> ok r \<and> blob r = Inr b \<and> createObjectURL ?br2 = Inr url \<and>
         [CreateElement,
          SetHref url,
          SetDownload (buildName ?br2 (formState ?st) @ str ''.zip''),
          SetDisplay ''none'',
          AppendChild url (buildName ?br2 (formState ?st) @ str ''.zip''),
          Click url (buildName ?br2 (formState ?st) @ str ''.zip''),
          Remove,
          RevokeObjectURL url] = before @ c # after \<and>
         (\<forall>p\<in>set before. throws ?br2 p = None) \<and>
         throws ?br2 c = Some (NotAnError (JStr ''aborted'')))"
    by simp
  have h3: "fetch ?br3 = Inl (ErrorInstance ''Out of memory'') \<or>
      (\<exists>r. fetch ?br3 = Inr r \<and> ok r \<and> blob r = Inl (ErrorInstance ''Out of memory'')) \<or>
      (\<exists>r b. fetch ?br3 = Inr r \<and> ok r \<and> blob r = Inr b \<and>
             createObjectURL ?br3 = Inl (ErrorInstance ''Out of memory'')) \<or>
      (\<exists>r b url before c after.
         fetch ?br3 = Inr r \<and> ok r \<and> blob r = Inr b \<and> createObjectURL ?br3 = Inr url \<and>
         [CreateElement,
          SetHref url,
          SetDownload (buildName ?br3 (formState ?st) @ str ''.zip''),
          SetDisplay ''none'',
          AppendChild url (buildName ?br3 (formState ?st) @ str ''.zip''),
          Click url (buildName ?br3 (formState ?st) @ str ''.zip''),
          Remove,
          RevokeObjectURL url] = before @ c # after \<and>
         (\<forall>p\<in>set before. throws ?br3 p = None) \<and>
         throws ?br3 c = Some (ErrorInstance ''Out of memory''))"
    by simp
  have "fetch ?br4 = Inr \<lparr>ok = True, json = Inr JNull, blob = Inr [77, 90]\<rparr> \<and>
         ok \<lparr>ok = True, json = Inr JNull, blob = Inr [77, 90]\<rparr> \<and>
         blob \<lparr>ok = True, json = Inr JNull, blob = Inr [77, 90]\<rparr> = Inr [77, 90] \<and>
         createObjectURL ?br4 = Inr ''blob:0'' \<and>
         [CreateElement, SetHref ''blob:0'', SetDownload ?file, SetDisplay ''none'',
          AppendChild ''blob:0'' ?file, Click ''blob:0'' ?file, Remove,
          RevokeObjectURL ''blob:0'']
           = [CreateElement, SetHref ''blob:0'', SetDownload ?file, SetDisplay ''none'',
          AppendChild ''blob:0'' ?file] @ Click ''blob:0'' ?file #
             [Remove, RevokeObjectURL ''blob:0''] \<and>
         (\<forall>p\<in>set [CreateElement, SetHref ''blob:0'', SetDownload ?file, SetDisplay ''none'',
          AppendChild ''blob:0'' ?file]. throws ?br4 p = None) \<and>
         throws ?br4 (Click ''blob:0'' ?file) = Some (ErrorInstance ''click failed'')"
    by simp
  then have "\<exists>r b url before c after.
         fetch ?br4 = Inr r \<and> ok r \<and> blob r = Inr b \<and> createObjectURL ?br4 = Inr url \<and>
         [CreateElement, SetHref url, SetDownload ?file, SetDisplay ''none'',
          AppendChild url ?file, Click url ?file, Remove, RevokeObjectURL url]
           = before @ c # after \<and>
         (\<forall>p\<in>set before. throws ?br4 p = None) \<and>
         throws ?br4 c = Some (ErrorInstance ''click failed'')"
    by (intro exI)
  then have h4: "fetch ?br4 = Inl (ErrorInstance ''click failed'') \<or>
      (\<exists>r. fetch ?br4 = Inr r \<and> ok r \<and> blob r = Inl (ErrorInstance ''click failed'')) \<or>
      (\<exists>r b. fetch ?br4 = Inr r \<and> ok r \<and> blob r = Inr b \<and>
             createObjectURL ?br4 = Inl (ErrorInstance ''click failed'')) \<or>
      (\<exists>r b url before c after.
         fetch ?br4 = Inr r \<and> ok r \<and> blob r = Inr b \<and> createObjectURL ?br4 = Inr url \<and>
         [CreateElement, SetHref url, SetDownload ?file, SetDisplay ''none'',
          AppendChild url ?file, Click url ?file, Remove, RevokeObjectURL url]
           = before @ c # after \<and>
         (\<forall>p\<in>set before. throws ?br4 p = None) \<and>
         throws ?br4 c = Some (ErrorInstance ''click failed''))"
    by (intro disjI2)
  from onSubmit_thrown [OF a h1] onSubmit_thrown [OF a h2] onSubmit_thrown [OF a h3]
    onSubmit_thrown [OF a h4]
  show ?thesis by simp
qed

section \<open>Submission: the name of the download\<close>

lemma str_Nil: "str s = [] \<longleftrightarrow> s = []"
  by (simp add: str_def)

lemma not_space_hyphen: "\<not> is_space 0x002D"
  by (simp add: is_space_def)

lemma replace_ws_Nil: "replace_ws s = [] \<longleftrightarrow> s = []"
  by (cases s) simp_all

lemma replace_ws_no_space: "\<forall>c\<in>set u. \<not> is_space c \<Longrightarrow> replace_ws u = u"
  by (induction u) simp_all

lemma dropWhile_run:
  assumes "\<forall>c\<in>set w. is_space c" and "v = [] \<or> \<not> is_space (hd v)"
  shows "dropWhile is_space (w @ v) = v"
proof -
  have "dropWhile is_space (w @ v) = dropWhile is_space v"
    using assms(1) by (simp add: dropWhile_append2)
  also have "\<dots> = v"
    using assms(2) by (cases v) simp_all
  finally show ?thesis .
qed

lemma replace_ws_run:
  assumes "\<forall>c\<in>set u. \<not> is_space c" and "w \<noteq> []" and "\<forall>c\<in>set w. is_space c"
    and "v = [] \<or> \<not> is_space (hd v)"
  shows "replace_ws (u @ w @ v) = u @ [0x002D] @ replace_ws v"
  using assms(1)
proof (induction u)
  case Nil
  obtain c w' where w: "w = c # w'" using assms(2) by (cases w) auto
  then have "is_space c" and "\<forall>c\<in>set w'. is_space c" using assms(3) by auto
  then show ?case using w dropWhile_run [OF _ assms(4), of w'] by simp
next
  case (Cons a u)
  then show ?case by simp
qed

lemma replace_ws_result: "c \<in> set (replace_ws s) \<Longrightarrow> \<not> is_space c"
proof (induction s rule: replace_ws.induct)
  case 1
  then show ?case by simp
next
  case (2 d ds)
  then show ?case by (auto simp: not_space_hyphen split: if_splits)
qed

lemma replace_ws_units: "c \<in> set (replace_ws s) \<Longrightarrow> c \<in> set s \<or> c = 0x002D"
proof (induction s rule: replace_ws.induct)
  case 1
  then show ?case by simp
next
  case (2 d ds)
  then show ?case by (auto split: if_splits dest: set_dropWhileD)
qed

lemma replace_ws_below:
  assumes "\<forall>c\<in>set s. c < 0x100"
  shows "\<forall>c\<in>set (replace_ws s). c < 0x100"
proof
  fix c assume "c \<in> set (replace_ws s)"
  then have "c \<in> set s \<or> c = 0x002D" by (rule replace_ws_units)
  then show "c < 0x100" using assms by auto
qed

lemma buildName_cases:
  "buildName br fs =
     (if targetName fs \<noteq> '''' then targetName fs
      else if toLowerCase br (replace_ws (appName fs)) \<noteq> ''''
           then toLowerCase br (replace_ws (appName fs))
      else str ''build'')"
  by (simp add: buildName_def truthy_str_def Let_def)

lemma ecma_lower_map: "ecma_lower (map lower_unit)"
  by (simp add: ecma_lower_def)

lemma ecma_lower_Nil: "ecma_lower lc \<Longrightarrow> lc s = [] \<longleftrightarrow> s = []"
proof
  assume "ecma_lower lc" and "lc s = []"
  then show "s = []" unfolding ecma_lower_def by blast
next
  assume e: "ecma_lower lc" and n: "s = []"
  have "\<forall>c\<in>set ([]::jsstring). c < 0x100" by simp
  with e have "lc [] = map lower_unit []" unfolding ecma_lower_def by blast
  then show "lc s = []" using n by simp
qed

lemma lower_unit_table:
  "map lower_unit (map of_nat [0..<256]) =
     map of_nat ([0..<65] @ [97..<123] @ [91..<192] @ [224..<247] @ [215] @ [248..<255] @
                 [223..<256])"
  by code_simp

lemma lower_unit_alphabet:
  "map lower_unit (str ''ABCDEFGHIJKLMNOPQRSTUVWXYZ'') = str ''abcdefghijklmnopqrstuvwxyz''"
  by (simp add: str_def lower_unit_def)

lemma my_app_name: "map lower_unit (replace_ws (str ''My App'')) = str ''my-app''"
  by (simp add: str_def lower_unit_def is_space_def)

lemma my_app_below: "\<forall>c\<in>set (str ''My App''). c < 0x100"
  by (simp add: str_def)

lemma every_space_one_hyphen:
  "replace_ws [0x004D, 0x0009, 0x000A, 0x000B, 0x000C, 0x000D, 0x0020, 0x00A0, 0x1680,
               0x2000, 0x2001, 0x2002, 0x2003, 0x2004, 0x2005, 0x2006, 0x2007,
               0x2008, 0x2009, 0x200A, 0x2028, 0x2029, 0x202F, 0x205F, 0x3000, 0xFEFF,
               0x0041] = [0x004D, 0x002D, 0x0041]"
  by (simp add: is_space_def)

lemma neighbours_kept:
  "replace_ws [0x0008, 0x000E, 0x001F, 0x0021, 0x0085, 0x009F, 0x00A1, 0x167F, 0x1681,
               0x180E, 0x1FFF, 0x200B, 0x2027, 0x202A, 0x202E, 0x2030, 0x205E, 0x2060,
               0x2FFF, 0x3001, 0xFEFE, 0xFF00]
   = [0x0008, 0x000E, 0x001F, 0x0021, 0x0085, 0x009F, 0x00A1, 0x167F, 0x1681,
      0x180E, 0x1FFF, 0x200B, 0x2027, 0x202A, 0x202E, 0x2030, 0x205E, 0x2060,
      0x2FFF, 0x3001, 0xFEFE, 0xFF00]"
  by (simp add: is_space_def)

lemma onSubmit_success:
  assumes "selectedArchive st = Some a" and "fetch br = Inr r" and "ok r" and "blob r = Inr b"
    and "createObjectURL br = Inr url" and "\<forall>c. throws br c = None"
  shows "onSubmit st br =
     (st\<lparr>logs := [], status := success,
         statusMessage := JStr ''Build succeeded! Your executable archive has downloaded.''\<rparr>,
      [PreventDefault,
       Fetch ''/api/build'' ''POST'' (payload a (formState st)),
       CreateObjectURL b,
       Dom CreateElement,
       Dom (SetHref url),
       Dom (SetDownload (buildName br (formState st) @ str ''.zip'')),
       Dom (SetDisplay ''none''),
       Dom (AppendChild url (buildName br (formState st) @ str ''.zip'')),
       Dom (Click url (buildName br (formState st) @ str ''.zip'')),
       Dom Remove,
       Dom (RevokeObjectURL url)])"
proof -
  have "run_calls (throws br) (anchor_calls url (buildName br (formState st) @ str ''.zip''))
        = (anchor_calls url (buildName br (formState st) @ str ''.zip''), None)"
    using assms(6) by (simp add: run_calls_ok)
  then show ?thesis
    using assms(1-5)
    by (simp add: onSubmit_def onSubmit_begin_def onSubmit_settle_def anchor_calls_def)
qed

lemma run_calls_returned:
  "run_calls thr cs = (returned, r) \<Longrightarrow> c \<in> set returned \<Longrightarrow> c \<in> set cs"
  using run_calls_subset [of thr cs] by auto

lemma onSubmit_settle_click:
  assumes "Dom (Click url file) \<in> set (snd (onSubmit_settle fs br st))"
  shows "file = buildName br fs @ str ''.zip''"
  using assms
  by (auto simp: onSubmit_settle_def anchor_calls_def
      split: sum.splits if_splits prod.splits option.splits dest!: run_calls_returned)

lemma onSubmit_click:
  assumes "Dom (Click url file) \<in> set (snd (onSubmit st br))"
  shows "file = buildName br (formState st) @ str ''.zip''"
proof (cases "selectedArchive st")
  case None
  then show ?thesis using assms by (simp add: onSubmit_guarded)
next
  case (Some a)
  then have "Dom (Click url file) \<in> set (snd (onSubmit_settle (formState st) br
       (st\<lparr>logs := [], status := working,
           statusMessage := JStr ''Uploading and building executable with cx_Freeze...''\<rparr>)))"
    using assms by (auto simp: onSubmit_def onSubmit_begin_def split: prod.splits)
  then show ?thesis by (rule onSubmit_settle_click)
qed

text \<open>
  C3. The name of the download is \<^verbatim>\<open>targetName\<close> when that is not empty; otherwise the
  application name with each run of white space replaced by one hyphen and then
  lower-cased by the engine, when that is not empty; otherwise "build"; in each case
  followed by ".zip". With an engine whose \<^verbatim>\<open>toLowerCase\<close> is as ECMAScript says, the
  last alternative is taken exactly when the application name is empty, and for an
  application name below U+0100 the lower-casing is \<open>lower_unit\<close> on each code unit.
  A response that is ok, whose blob can be read, with no call throwing, makes the handler
  click an anchor whose \<^verbatim>\<open>download\<close> is that name and end in \<open>success\<close>; and whenever
  the handler clicks an anchor, its \<^verbatim>\<open>download\<close> is that name. The application name
  "My App" with an empty \<^verbatim>\<open>targetName\<close> gives "my-app.zip", and the \<^verbatim>\<open>targetName\<close>
  "custom" gives "custom.zip" whatever the application name. Replacing the runs leaves no
  white space, leaves a string without white space as it is, and turns a maximal run into
  one hyphen; white space is exactly the twenty-five code units of ECMAScript; a run of
  all of them becomes one hyphen, and their neighbours in the code table are kept.
  \<open>lower_unit\<close> is given by its table on U+0000 to U+00FF.
\<close>

theorem buildName_zip:
  "buildName br fs =
     (if targetName fs \<noteq> '''' then targetName fs
      else if toLowerCase br (replace_ws (appName fs)) \<noteq> ''''
           then toLowerCase br (replace_ws (appName fs))
      else str ''build'') \<and>
   (ecma_lower (toLowerCase br) \<and> targetName fs = '''' \<longrightarrow>
      buildName br fs =
        (if appName fs \<noteq> '''' then toLowerCase br (replace_ws (appName fs)) else str ''build'')) \<and>
   (ecma_lower (toLowerCase br) \<and> targetName fs = '''' \<and> (\<forall>c\<in>set (appName fs). c < 0x100) \<longrightarrow>
      buildName br fs =
        (if appName fs \<noteq> '''' then map lower_unit (replace_ws (appName fs)) else str ''build'')) \<and>
   (\<forall>a r b url.
      selectedArchive st = Some a \<and> fetch br = Inr r \<and> ok r \<and> blob r = Inr b \<and>
      createObjectURL br = Inr url \<and> (\<forall>c. throws br c = None) \<longrightarrow>
      status (fst (onSubmit st br)) = success \<and>
      snd (onSubmit st br) =
        [PreventDefault,
         Fetch ''/api/build'' ''POST'' (payload a (formState st)),
         CreateObjectURL b,
         Dom CreateElement,
         Dom (SetHref url),
         Dom (SetDownload (buildName br (formState st) @ str ''.zip'')),
         Dom (SetDisplay ''none''),
         Dom (AppendChild url (buildName br (formState st) @ str ''.zip'')),
         Dom (Click url (buildName br (formState st) @ str ''.zip'')),
         Dom Remove,
         Dom (RevokeObjectURL url)]) \<and>
   (\<forall>url file. Dom (Click url file) \<in> set (snd (onSubmit st br)) \<longrightarrow>
      file = buildName br (formState st) @ str ''.zip'') \<and>
   (ecma_lower (toLowerCase br) \<and> appName fs = str ''My App'' \<and> targetName fs = '''' \<longrightarrow>
      buildName br fs @ str ''.zip'' = str ''my-app.zip'') \<and>
   (targetName fs = str ''custom'' \<longrightarrow> buildName br fs @ str ''.zip'' = str ''custom.zip'') \<and>
   (\<forall>c\<in>set (replace_ws s). \<not> is_space c) \<and>
   ((\<forall>c\<in>set u. \<not> is_space c) \<and> w \<noteq> [] \<and> (\<forall>c\<in>set w. is_space c) \<and>
    (v = [] \<or> \<not> is_space (hd v)) \<longrightarrow>
      replace_ws u = u \<and> replace_ws (u @ w @ v) = u @ str ''-'' @ replace_ws v) \<and>
   (is_space c \<longleftrightarrow>
      c \<in> {0x0009, 0x000A, 0x000B, 0x000C, 0x000D, 0x0020, 0x00A0, 0x1680,
           0x2000, 0x2001, 0x2002, 0x2003, 0x2004, 0x2005, 0x2006, 0x2007,
           0x2008, 0x2009, 0x200A, 0x2028, 0x2029, 0x202F, 0x205F, 0x3000, 0xFEFF}) \<and>
   replace_ws [0x004D, 0x0009, 0x000A, 0x000B, 0x000C, 0x000D, 0x0020, 0x00A0, 0x1680,
               0x2000, 0x2001, 0x2002, 0x2003, 0x2004, 0x2005, 0x2006, 0x2007,
               0x2008, 0x2009, 0x200A, 0x2028, 0x2029, 0x202F, 0x205F, 0x3000, 0xFEFF,
               0x0041] = [0x004D, 0x002D, 0x0041] \<and>
   replace_ws [0x0008, 0x000E, 0x001F, 0x0021, 0x0085, 0x009F, 0x00A1, 0x167F, 0x1681,
               0x180E, 0x1FFF, 0x200B, 0x2027, 0x202A, 0x202E, 0x2030, 0x205E, 0x2060,
               0x2FFF, 0x3001, 0xFEFE, 0xFF00]
   = [0x0008, 0x000E, 0x001F, 0x0021, 0x0085, 0x009F, 0x00A1, 0x167F, 0x1681,
      0x180E, 0x1FFF, 0x200B, 0x2027, 0x202A, 0x202E, 0x2030, 0x205E, 0x2060,
      0x2FFF, 0x3001, 0xFEFE, 0xFF00] \<and>
   map lower_unit (map of_nat [0..<256]) =
     map of_nat ([0..<65] @ [97..<123] @ [91..<192] @ [224..<247] @ [215] @ [248..<255] @
                 [223..<256]) \<and>
   map lower_unit (str ''ABCDEFGHIJKLMNOPQRSTUVWXYZ'') = str ''abcdefghijklmnopqrstuvwxyz''"
proof -
  have c1: "buildName br fs =
     (if targetName fs \<noteq> '''' then targetName fs
      else if toLowerCase br (replace_ws (appName fs)) \<noteq> ''''
           then toLowerCase br (replace_ws (appName fs))
      else str ''build'')"
    by (rule buildName_cases)
  have c2: "ecma_lower (toLowerCase br) \<and> targetName fs = '''' \<longrightarrow>
      buildName br fs =
        (if appName fs \<noteq> '''' then toLowerCase br (replace_ws (appName fs)) else str ''build'')"
    by (simp add: buildName_cases ecma_lower_Nil replace_ws_Nil del: replace_ws.simps)
  have c3: "ecma_lower (toLowerCase br) \<and> targetName fs = '''' \<and>
      (\<forall>c\<in>set (appName fs). c < 0x100) \<longrightarrow>
      buildName br fs =
        (if appName fs \<noteq> '''' then map lower_unit (replace_ws (appName fs)) else str ''build'')"
  proof (intro impI, elim conjE)
    assume e: "ecma_lower (toLowerCase br)" and t: "targetName fs = ''''"
      and below: "\<forall>c\<in>set (appName fs). c < 0x100"
    have "toLowerCase br (replace_ws (appName fs)) = map lower_unit (replace_ws (appName fs))"
      using e replace_ws_below [OF below] unfolding ecma_lower_def by blast
    then show "buildName br fs =
        (if appName fs \<noteq> '''' then map lower_unit (replace_ws (appName fs)) else str ''build'')"
      using c2 e t by simp
  qed
  have c4: "\<forall>a r b url.
      selectedArchive st = Some a \<and> fetch br = Inr r \<and> ok r \<and> blob r = Inr b \<and>
      createObjectURL br = Inr url \<and> (\<forall>c. throws br c = None) \<longrightarrow>
      status (fst (onSubmit st br)) = success \<and>
      snd (onSubmit st br) =
        [PreventDefault,
         Fetch ''/api/build'' ''POST'' (payload a (formState st)),
         CreateObjectURL b,
         Dom CreateElement,
         Dom (SetHref url),
         Dom (SetDownload (buildName br (formState st) @ str ''.zip'')),
         Dom (SetDisplay ''none''),
         Dom (AppendChild url (buildName br (formState st) @ str ''.zip'')),
         Dom (Click url (buildName br (formState st) @ str ''.zip'')),
         Dom Remove,
         Dom (RevokeObjectURL url)]"
    by (simp add: onSubmit_success)
  have c5: "\<forall>url file. Dom (Click url file) \<in> set (snd (onSubmit st br)) \<longrightarrow>
      file = buildName br (formState st) @ str ''.zip''"
    using onSubmit_click by blast
  have c6: "ecma_lower (toLowerCase br) \<and> appName fs = str ''My App'' \<and> targetName fs = '''' \<longrightarrow>
      buildName br fs @ str ''.zip'' = str ''my-app.zip''"
  proof (intro impI, elim conjE)
    assume e: "ecma_lower (toLowerCase br)" and a: "appName fs = str ''My App''"
      and t: "targetName fs = ''''"
    have "appName fs \<noteq> ''''" using a by (simp add: str_def)
    moreover have "\<forall>c\<in>set (appName fs). c < 0x100" using a my_app_below by simp
    ultimately have "buildName br fs = map lower_unit (replace_ws (str ''My App''))"
      using c3 e t a by simp
    then have "buildName br fs = str ''my-app''" by (simp only: my_app_name)
    then show "buildName br fs @ str ''.zip'' = str ''my-app.zip''" by (simp add: str_def)
  qed
  have c7: "targetName fs = str ''custom'' \<longrightarrow> buildName br fs @ str ''.zip'' = str ''custom.zip''"
    by (simp add: buildName_cases str_def)
  have c8: "\<forall>c\<in>set (replace_ws s). \<not> is_space c"
    using replace_ws_result by blast
  have c9: "(\<forall>c\<in>set u. \<not> is_space c) \<and> w \<noteq> [] \<and> (\<forall>c\<in>set w. is_space c) \<and>
    (v = [] \<or> \<not> is_space (hd v)) \<longrightarrow>
      replace_ws u = u \<and> replace_ws (u @ w @ v) = u @ str ''-'' @ replace_ws v"
  proof -
    have "str ''-'' = [0x002D]" by (simp add: str_def)
    then show ?thesis using replace_ws_no_space replace_ws_run by simp
  qed
  have c10: "is_space c \<longleftrightarrow>
      c \<in> {0x0009, 0x000A, 0x000B, 0x000C, 0x000D, 0x0020, 0x00A0, 0x1680,
           0x2000, 0x2001, 0x2002, 0x2003, 0x2004, 0x2005, 0x2006, 0x2007,
           0x2008, 0x2009, 0x200A, 0x2028, 0x2029, 0x202F, 0x205F, 0x3000, 0xFEFF}"
    by (simp add: is_space_def)
  from c1 c2 c3 c4 c5 c6 c7 c8 c9 c10 every_space_one_hyphen neighbours_kept lower_unit_table
    lower_unit_alphabet
  show ?thesis by (intro conjI)
qed

theorem buildName_zip_witness:
  "ecma_lower (map lower_unit) \<and>
   buildName
     \<lparr>fetch = Inr \<lparr>ok = True, json = Inl (ErrorInstance ''Unexpected token''), blob = Inr [77, 90]\<rparr>,
      createObjectURL = Inr ''blob:0'', throws = (\<lambda>c. None), toLowerCase = map lower_unit\<rparr>
     (defaultFormState\<lparr>appName := str ''My App''\<rparr>) @ str ''.zip'' = str ''my-app.zip'' \<and>
   buildName
     \<lparr>fetch = Inr \<lparr>ok = True, json = Inl (ErrorInstance ''Unexpected token''), blob = Inr [77, 90]\<rparr>,
      createObjectURL = Inr ''blob:0'', throws = (\<lambda>c. None), toLowerCase = map lower_unit\<rparr>
     (defaultFormState\<lparr>targetName := str ''custom''\<rparr>) @ str ''.zip'' = str ''custom.zip'' \<and>
   buildName
     \<lparr>fetch = Inr \<lparr>ok = True, json = Inl (ErrorInstance ''Unexpected token''), blob = Inr [77, 90]\<rparr>,
      createObjectURL = Inr ''blob:0'', throws = (\<lambda>c. None), toLowerCase = map lower_unit\<rparr>
     (defaultFormState\<lparr>appName := ''''\<rparr>) = str ''build'' \<and>
   replace_ws (str ''My'' @ [0x0020, 0x3000] @ str ''App'') = str ''My-App'' \<and>
   status (fst (onSubmit
     (HomePage_init\<lparr>selectedArchive := Some \<lparr>name = ''project.zip'', bytes = [80, 75]\<rparr>\<rparr>)
     \<lparr>fetch = Inr \<lparr>ok = True, json = Inl (ErrorInstance ''Unexpected token''), blob = Inr [77, 90]\<rparr>,
      createObjectURL = Inr ''blob:0'', throws = (\<lambda>c. None), toLowerCase = map lower_unit\<rparr>))
     = success \<and>
   snd (onSubmit
     (HomePage_init\<lparr>selectedArchive := Some \<lparr>name = ''project.zip'', bytes = [80, 75]\<rparr>\<rparr>)
     \<lparr>fetch = Inr \<lparr>ok = True, json = Inl (ErrorInstance ''Unexpected token''), blob = Inr [77, 90]\<rparr>,
      createObjectURL = Inr ''blob:0'', throws = (\<lambda>c. None), toLowerCase = map lower_unit\<rparr>)
   = [PreventDefault,
      Fetch ''/api/build'' ''POST''
        (payload \<lparr>name = ''project.zip'', bytes = [80, 75]\<rparr> defaultFormState),
      CreateObjectURL [77, 90],
      Dom CreateElement,
      Dom (SetHref ''blob:0''),
      Dom (SetDownload (str ''myapplication.zip'')),
      Dom (SetDisplay ''none''),
      Dom (AppendChild ''blob:0'' (str ''myapplication.zip'')),
      Dom (Click ''blob:0'' (str ''myapplication.zip'')),
      Dom Remove,
      Dom (RevokeObjectURL ''blob:0'')] \<and>
   buildName
     \<lparr>fetch = Inr \<lparr>ok = True, json = Inl (ErrorInstance ''Unexpected token''), blob = Inr [77, 90]\<rparr>,
      createObjectURL = Inr ''blob:0'', throws = (\<lambda>c. None), toLowerCase = map lower_unit\<rparr>
     (defaultFormState\<lparr>appName := str ''My App''\<rparr>) = map lower_unit (str ''My-App'') \<and>
   buildName
     \<lparr>fetch = Inr \<lparr>ok = True, json = Inl (ErrorInstance ''Unexpected token''), blob = Inr [77, 90]\<rparr>,
      createObjectURL = Inr ''blob:0'', throws = (\<lambda>c. None), toLowerCase = map lower_unit\<rparr>
     (formState
       (HomePage_init\<lparr>selectedArchive := Some \<lparr>name = ''project.zip'', bytes = [80, 75]\<rparr>\<rparr>))
     @ str ''.zip'' = str ''myapplication.zip'' \<and>
   0x002D \<in> set (replace_ws (str ''My App'')) \<and> \<not> is_space 0x002D"
proof -
  let ?br = "\<lparr>fetch = Inr \<lparr>ok = True, json = Inl (ErrorInstance ''Unexpected token''),
                            blob = Inr [77, 90]\<rparr>,
      createObjectURL = Inr ''blob:0'', throws = (\<lambda>c. None), toLowerCase = map lower_unit\<rparr>"
  let ?st = "HomePage_init\<lparr>selectedArchive := Some \<lparr>name = ''project.zip'', bytes = [80, 75]\<rparr>\<rparr>"
  let ?fs1 = "defaultFormState\<lparr>appName := str ''My App''\<rparr>"
  let ?fs2 = "defaultFormState\<lparr>targetName := str ''custom''\<rparr>"
  let ?fs3 = "defaultFormState\<lparr>appName := ''''\<rparr>"
  note t1 = buildName_zip [of ?br ?fs1 ?st "str ''My App''" "str ''My''" "[0x0020, 0x3000]"
      "str ''App''"]
  note t2 = buildName_zip [of ?br ?fs2 ?st "str ''My App''" "str ''My''" "[0x0020, 0x3000]"
      "str ''App''"]
  note t3 = buildName_zip [of ?br ?fs3 ?st "str ''My App''" "str ''My''" "[0x0020, 0x3000]"
      "str ''App''"]
  have e: "ecma_lower (toLowerCase ?br)"
    by (simp add: ecma_lower_map)
  have w1: "ecma_lower (map lower_unit)"
    using e by simp
  have p2: "appName ?fs1 = str ''My App'' \<and> targetName ?fs1 = ''''"
    by (simp add: defaultFormState_def str_def)
  have w2: "buildName ?br ?fs1 @ str ''.zip'' = str ''my-app.zip''"
    using t1 [THEN conjunct2, THEN conjunct2, THEN conjunct2, THEN conjunct2, THEN conjunct2,
        THEN conjunct1] e p2
    by blast
  have p3: "targetName ?fs2 = str ''custom''"
    by simp
  have w3: "buildName ?br ?fs2 @ str ''.zip'' = str ''custom.zip''"
    using t2 [THEN conjunct2, THEN conjunct2, THEN conjunct2, THEN conjunct2, THEN conjunct2,
        THEN conjunct2, THEN conjunct1] p3
    by blast
  have p4: "targetName ?fs3 = '''' \<and> appName ?fs3 = ''''"
    by (simp add: defaultFormState_def str_def)
  have w4: "buildName ?br ?fs3 = str ''build''"
    using t3 [THEN conjunct2, THEN conjunct1] e p4
    by simp
  have p5: "(\<forall>c\<in>set (str ''My''). \<not> is_space c) \<and> [0x0020, 0x3000] \<noteq> ([]::jsstring) \<and>
            (\<forall>c\<in>set [0x0020, 0x3000]. is_space c) \<and>
            (str ''App'' = [] \<or> \<not> is_space (hd (str ''App'')))"
    by (simp add: is_space_def str_def)
  have "replace_ws (str ''My'' @ [0x0020, 0x3000] @ str ''App'')
        = str ''My'' @ str ''-'' @ replace_ws (str ''App'')"
    using t1 [THEN conjunct2, THEN conjunct2, THEN conjunct2, THEN conjunct2, THEN conjunct2,
        THEN conjunct2, THEN conjunct2, THEN conjunct2, THEN conjunct1] p5
    by blast
  moreover have "replace_ws (str ''App'') = str ''App''"
    by (simp add: is_space_def str_def)
  ultimately have w5: "replace_ws (str ''My'' @ [0x0020, 0x3000] @ str ''App'') = str ''My-App''"
    by (simp add: str_def)
  have p6: "selectedArchive ?st = Some \<lparr>name = ''project.zip'', bytes = [80, 75]\<rparr> \<and>
            fetch ?br = Inr \<lparr>ok = True, json = Inl (ErrorInstance ''Unexpected token''),
                              blob = Inr [77, 90]\<rparr> \<and>
            ok \<lparr>ok = True, json = Inl (ErrorInstance ''Unexpected token''), blob = Inr [77, 90]\<rparr> \<and>
            blob \<lparr>ok = True, json = Inl (ErrorInstance ''Unexpected token''), blob = Inr [77, 90]\<rparr>
              = Inr [77, 90] \<and>
            createObjectURL ?br = Inr ''blob:0'' \<and> (\<forall>c. throws ?br c = None)"
    by simp
  have n: "buildName ?br defaultFormState @ str ''.zip'' = str ''myapplication.zip''"
    by (simp add: buildName_cases defaultFormState_def str_def lower_unit_def is_space_def)
  have f: "formState ?st = defaultFormState"
    by (simp add: HomePage_init_def)
  have "status (fst (onSubmit ?st ?br)) = success \<and>
      snd (onSubmit ?st ?br) =
        [PreventDefault,
         Fetch ''/api/build'' ''POST''
           (payload \<lparr>name = ''project.zip'', bytes = [80, 75]\<rparr> (formState ?st)),
         CreateObjectURL [77, 90],
         Dom CreateElement,
         Dom (SetHref ''blob:0''),
         Dom (SetDownload (buildName ?br (formState ?st) @ str ''.zip'')),
         Dom (SetDisplay ''none''),
         Dom (AppendChild ''blob:0'' (buildName ?br (formState ?st) @ str ''.zip'')),
         Dom (Click ''blob:0'' (buildName ?br (formState ?st) @ str ''.zip'')),
         Dom Remove,
         Dom (RevokeObjectURL ''blob:0'')]"
    using t1 [THEN conjunct2, THEN conjunct2, THEN conjunct2, THEN conjunct1] p6
    by blast
  then have w6: "status (fst (onSubmit ?st ?br)) = success \<and>
      snd (onSubmit ?st ?br) =
        [PreventDefault,
         Fetch ''/api/build'' ''POST''
           (payload \<lparr>name = ''project.zip'', bytes = [80, 75]\<rparr> defaultFormState),
         CreateObjectURL [77, 90],
         Dom CreateElement,
         Dom (SetHref ''blob:0''),
         Dom (SetDownload (str ''myapplication.zip'')),
         Dom (SetDisplay ''none''),
         Dom (AppendChild ''blob:0'' (str ''myapplication.zip'')),
         Dom (Click ''blob:0'' (str ''myapplication.zip'')),
         Dom Remove,
         Dom (RevokeObjectURL ''blob:0'')]"
    by (simp add: f n)
  have p7: "targetName ?fs1 = '''' \<and> (\<forall>c\<in>set (appName ?fs1). c < 0x100) \<and> appName ?fs1 \<noteq> ''''"
    by (simp add: defaultFormState_def str_def)
  have "buildName ?br ?fs1 =
      (if appName ?fs1 \<noteq> '''' then map lower_unit (replace_ws (appName ?fs1)) else str ''build'')"
    using t1 [THEN conjunct2, THEN conjunct2, THEN conjunct1] e p7
    by blast
  moreover have "replace_ws (appName ?fs1) = str ''My-App''"
    by (simp add: str_def is_space_def)
  ultimately have w7: "buildName ?br ?fs1 = map lower_unit (str ''My-App'')"
    using p7 by simp
  have "Dom (Click ''blob:0'' (str ''myapplication.zip'')) \<in> set (snd (onSubmit ?st ?br))"
    using w6 by simp
  then have "str ''myapplication.zip'' = buildName ?br (formState ?st) @ str ''.zip''"
    using t1 [THEN conjunct2, THEN conjunct2, THEN conjunct2, THEN conjunct2, THEN conjunct1]
    by blast
  then have w8: "buildName ?br (formState ?st) @ str ''.zip'' = str ''myapplication.zip''"
    by (rule sym)
  have m: "0x002D \<in> set (replace_ws (str ''My App''))"
    by (simp add: str_def is_space_def)
  then have w9: "\<not> is_space 0x002D"
    using t1 [THEN conjunct2, THEN conjunct2, THEN conjunct2, THEN conjunct2, THEN conjunct2,
        THEN conjunct2, THEN conjunct2, THEN conjunct1]
    by blast
  from w1 w2 w3 w4 w5 w6 w7 w8 m w9 show ?thesis by (intro conjI) simp_all
qed

end
